theory Spec2Isabelle
  imports Main "HOL-Library.AList"
begin

section \<open>Python values used by the console\<close>

text \<open>
  The console (\<^verbatim>\<open>console.py\<close>) works on Python strings, lists of strings and one
  dictionary. A string is a list of characters; the characters are the code points below
  256, which covers every literal of the source. A dictionary keeps its entries in
  insertion order, and \<^verbatim>\<open>do_all\<close> prints in that order, so it is an association list:
  assignment to a present key replaces the value in place, assignment to a new key appends.
\<close>

type_synonym ('k, 'v) dict = "('k \<times> 'v) list"

datatype py_error = IndexError | KeyError

text \<open>
  The characters \<^verbatim>\<open>str.split()\<close> and \<^verbatim>\<open>str.strip()\<close> treat as white space, among
  the code points below 256: TAB, LF, VT, FF, CR, the separators 0x1C to 0x1F, the blank,
  NEL (0x85) and the no-break space (0xA0).
\<close>

definition isspace :: "char \<Rightarrow> bool" where
  "isspace c =
     (let n = (of_char c :: nat)
      in (9 \<le> n \<and> n \<le> 13) \<or> (28 \<le> n \<and> n \<le> 32) \<or> n = 133 \<or> n = 160)"

text \<open>
  \<^verbatim>\<open>arg.split()\<close> with no separator: the maximal runs of characters that are not white
  space, in order; no empty string is ever produced. \<open>cur\<close> is the run being read.
\<close>

fun split_acc :: "string \<Rightarrow> string \<Rightarrow> string list" where
  "split_acc cur [] = (if cur = [] then [] else [cur])"
| "split_acc cur (c # cs) =
     (if isspace c then (if cur = [] then split_acc [] cs else cur # split_acc [] cs)
      else split_acc (cur @ [c]) cs)"

definition str_split :: "string \<Rightarrow> string list" where
  "str_split s = split_acc [] s"

text \<open>\<^verbatim>\<open>line.strip()\<close>: white space removed at both ends.\<close>

definition str_strip :: "string \<Rightarrow> string" where
  "str_strip s = rev (dropWhile isspace (rev (dropWhile isspace s)))"

text \<open>\<^verbatim>\<open>"{}.{}".format(a, b)\<close>\<close>

definition format_key :: "string \<Rightarrow> string \<Rightarrow> string" where
  "format_key a b = a @ ''.'' @ b"

text \<open>\<^verbatim>\<open>d.get(k, None)\<close>, \<^verbatim>\<open>d[k]\<close>, \<^verbatim>\<open>d[k] = v\<close>, \<^verbatim>\<open>del d[k]\<close> and \<^verbatim>\<open>d.keys()\<close>.\<close>

definition dict_get :: "('k, 'v) dict \<Rightarrow> 'k \<Rightarrow> 'v option" where
  "dict_get d k = map_of d k"

definition dict_getitem :: "('k, 'v) dict \<Rightarrow> 'k \<Rightarrow> py_error + 'v" where
  "dict_getitem d k = (case map_of d k of None \<Rightarrow> Inl KeyError | Some v \<Rightarrow> Inr v)"

definition dict_setitem :: "('k, 'v) dict \<Rightarrow> 'k \<Rightarrow> 'v \<Rightarrow> ('k, 'v) dict" where
  "dict_setitem d k v = AList.update k v d"

definition dict_delitem :: "('k, 'v) dict \<Rightarrow> 'k \<Rightarrow> py_error + ('k, 'v) dict" where
  "dict_delitem d k =
     (case map_of d k of None \<Rightarrow> Inl KeyError | Some _ \<Rightarrow> Inr (AList.delete k d))"

definition dict_keys :: "('k, 'v) dict \<Rightarrow> 'k list" where
  "dict_keys d = map fst d"

definition dict_values :: "('k, 'v) dict \<Rightarrow> 'v list" where
  "dict_values d = map snd d"

section \<open>Data model\<close>

text \<open>
  An instance: the name of its class (\<^verbatim>\<open>type(v).__name__\<close>), its identifier and its two
  time stamps. A time stamp is a reading of the clock, counted in ticks.
\<close>

type_synonym datetime = nat

record object =
  type_name :: string
  obj_id :: string
  created_at :: datetime
  updated_at :: datetime

text \<open>\<^verbatim>\<open>current_classes = {'BaseModel': BaseModel}\<close>\<close>

datatype py_class = BaseModel

definition current_classes :: "(string, py_class) dict" where
  "current_classes = [(''BaseModel'', BaseModel)]"

fun class_name :: "py_class \<Rightarrow> string" where
  "class_name BaseModel = ''BaseModel''"

text \<open>
  What one \<^verbatim>\<open>print\<close> call writes: a string; \<^verbatim>\<open>str(v)\<close> of an instance; the list of the
  \<^verbatim>\<open>str(v)\<close> of some instances, as \<^verbatim>\<open>do_all\<close> prints it; or the text that
  \<^verbatim>\<open>cmd.Cmd.do_help\<close> writes for a topic that has no \<^verbatim>\<open>help_\<close> method in the console.
\<close>

datatype printed = Text string | Str object | StrList "object list" | CmdHelp string

text \<open>
  The state of a session: the map of the storage engine, the file it was last serialized
  to (\<open>None\<close> while there is no file), the number of times the file was written, what has
  been printed, and \<^verbatim>\<open>cmd.Cmd.lastcmd\<close>.
\<close>

record console =
  objects :: "(string, object) dict"
  json_file :: "(string, object) dict option"
  saves :: nat
  stdout :: "printed list"
  lastcmd :: string

text \<open>
  What a command takes from outside the program: the identifier \<^verbatim>\<open>uuid4\<close> generates
  and the readings of the clock when an instance is created and when it is saved.
\<close>

record env =
  uuid4 :: string
  now_created :: datetime
  now_updated :: datetime
  now_saved :: datetime

text \<open>
  How a handler ends: it returns a false value and the loop goes on, it returns \<open>True\<close>
  and the loop stops, or an exception leaves it.
\<close>

datatype outcome = Continue | Stop | Raised py_error

definition print :: "printed \<Rightarrow> console \<Rightarrow> console" where
  "print x s = s\<lparr>stdout := stdout s @ [x]\<rparr>"

section \<open>Storage engine and base model\<close>

text \<open>
  Modelled from the spec: \<^verbatim>\<open>models.storage.all()\<close>, whose module is not among the
  sources. It gives the full map from keys to objects; the map is the one the storage
  holds, so that deleting from it deletes from the storage.
\<close>

definition storage_all :: "console \<Rightarrow> (string, object) dict" where
  "storage_all s = objects s"

text \<open>
  Modelled from the spec: \<^verbatim>\<open>models.storage.new(obj)\<close>, whose module is not among the
  sources. It registers an object under the composite key of its class name and its
  identifier.
\<close>

definition storage_new :: "object \<Rightarrow> console \<Rightarrow> console" where
  "storage_new obj s =
     s\<lparr>objects := dict_setitem (objects s) (format_key (type_name obj) (obj_id obj)) obj\<rparr>"

text \<open>
  Modelled from the spec: \<^verbatim>\<open>models.storage.save()\<close>, whose module is not among the
  sources. It serializes the map to the file, rewriting the file wholesale.
\<close>

definition storage_save :: "console \<Rightarrow> console" where
  "storage_save s = s\<lparr>json_file := Some (objects s), saves := Suc (saves s)\<rparr>"

text \<open>
  Modelled from the spec: the constructor \<^verbatim>\<open>BaseModel()\<close> of
  \<^verbatim>\<open>models.base_model\<close>, which is not among the sources. The new entity has a
  UUID-like identifier, a creation time stamp and an update time stamp, and is registered
  in the storage (the implicit \<^verbatim>\<open>new(obj)\<close>).
\<close>

definition BaseModel_init :: "py_class \<Rightarrow> env \<Rightarrow> console \<Rightarrow> object \<times> console" where
  "BaseModel_init cls e s =
     (let obj = \<lparr>type_name = class_name cls, obj_id = uuid4 e,
                 created_at = now_created e, updated_at = now_updated e\<rparr>
      in (obj, storage_new obj s))"

text \<open>
  Modelled from the spec: the method \<^verbatim>\<open>save()\<close> of \<^verbatim>\<open>BaseModel\<close>, which is not among
  the sources. The entity is mutated in its update time stamp only, and the storage is
  persisted to the file. The entity is the very object the storage holds under its key,
  so the entry of the storage shows the new time stamp.
\<close>

definition BaseModel_save :: "object \<Rightarrow> env \<Rightarrow> console \<Rightarrow> object \<times> console" where
  "BaseModel_save obj e s =
     (let obj' = obj\<lparr>updated_at := now_saved e\<rparr>;
          key = format_key (type_name obj) (obj_id obj);
          s1 = s\<lparr>objects := AList.map_entry key (\<lambda>v. v\<lparr>updated_at := now_saved e\<rparr>) (objects s)\<rparr>
      in (obj', storage_save s1))"

section \<open>The command handlers\<close>

text \<open>
  \<^verbatim>\<open>validate_classname(args, check_id=False)\<close>: the three checks in the order of the
  source, each printing its message and returning \<open>False\<close>.
\<close>

definition validate_classname :: "string list \<Rightarrow> bool \<Rightarrow> console \<Rightarrow> bool \<times> console" where
  "validate_classname args check_id s =
     (case args of
        [] \<Rightarrow> (False, print (Text ''** class name missing ** '') s)
      | a0 # _ \<Rightarrow>
          if a0 \<notin> set (dict_keys current_classes)
          then (False, print (Text ''** class doesn't exist ** '') s)
          else if length args < 2 \<and> check_id
          then (False, print (Text ''** instance id missing **'') s)
          else (True, s))"

text \<open>
  \<^verbatim>\<open>do_create\<close>. \<^verbatim>\<open>args[0]\<close> raises \<open>IndexError\<close> on an empty list and
  \<^verbatim>\<open>current_classes[args[0]]\<close> raises \<open>KeyError\<close> on an unknown name.
\<close>

definition do_create :: "string \<Rightarrow> env \<Rightarrow> console \<Rightarrow> outcome \<times> console" where
  "do_create arg e s =
     (let args = str_split arg;
          (ok, s1) = validate_classname args False s
      in if \<not> ok then (Continue, s1)
         else case args of
                [] \<Rightarrow> (Raised IndexError, s1)
              | a0 # _ \<Rightarrow>
                  (case dict_getitem current_classes a0 of
                     Inl err \<Rightarrow> (Raised err, s1)
                   | Inr cls \<Rightarrow>
                       (let (new_obj, s2) = BaseModel_init cls e s1;
                            (new_obj', s3) = BaseModel_save new_obj e s2
                        in (Continue, print (Text (obj_id new_obj')) s3))))"

text \<open>\<^verbatim>\<open>do_show\<close>. \<^verbatim>\<open>args[0]\<close> and \<^verbatim>\<open>args[1]\<close> raise \<open>IndexError\<close> on a short list.\<close>

definition do_show :: "string \<Rightarrow> console \<Rightarrow> outcome \<times> console" where
  "do_show arg s =
     (let args = str_split arg;
          (ok, s1) = validate_classname args True s
      in if \<not> ok then (Continue, s1)
         else case args of
                a0 # a1 # _ \<Rightarrow>
                  (let instance_objs = storage_all s1;
                       key = format_key a0 a1
                   in case dict_get instance_objs key of
                        None \<Rightarrow> (Continue, print (Text ''** no instance found **'') s1)
                      | Some req_instance \<Rightarrow> (Continue, print (Str req_instance) s1))
              | _ \<Rightarrow> (Raised IndexError, s1))"

text \<open>
  \<^verbatim>\<open>do_destroy\<close>. The map it deletes from is the map of the storage; \<^verbatim>\<open>del\<close> raises
  \<open>KeyError\<close> on an absent key.
\<close>

definition do_destroy :: "string \<Rightarrow> console \<Rightarrow> outcome \<times> console" where
  "do_destroy arg s =
     (let args = str_split arg;
          (ok, s1) = validate_classname args True s
      in if \<not> ok then (Continue, s1)
         else case args of
                a0 # a1 # _ \<Rightarrow>
                  (let instance_objs = storage_all s1;
                       key = format_key a0 a1
                   in case dict_get instance_objs key of
                        None \<Rightarrow> (Continue, print (Text ''** no instance found **'') s1)
                      | Some req_instance \<Rightarrow>
                          (case dict_delitem instance_objs key of
                             Inl err \<Rightarrow> (Raised err, s1)
                           | Inr d \<Rightarrow> (Continue, storage_save (s1\<lparr>objects := d\<rparr>))))
              | _ \<Rightarrow> (Raised IndexError, s1))"

text \<open>\<^verbatim>\<open>do_all\<close>: the values of the map in its order, all of them or those of one class.\<close>

definition do_all :: "string \<Rightarrow> console \<Rightarrow> outcome \<times> console" where
  "do_all arg s =
     (let args = str_split arg;
          all_objs = storage_all s
      in case args of
           [] \<Rightarrow> (Continue, print (StrList (map snd all_objs)) s)
         | a0 # _ \<Rightarrow>
             if a0 \<notin> set (dict_keys current_classes)
             then (Continue, print (Text ''** class doesn't exist ** '') s)
             else (Continue,
                   print (StrList (map snd (filter (\<lambda>(_, v). type_name v = a0) all_objs))) s))"

definition do_EOF :: "string \<Rightarrow> console \<Rightarrow> outcome \<times> console" where
  "do_EOF line s = (Stop, s)"

definition do_quit :: "string \<Rightarrow> console \<Rightarrow> outcome \<times> console" where
  "do_quit arg s = (Stop, s)"

definition emptyline :: "console \<Rightarrow> outcome \<times> console" where
  "emptyline s = (Continue, s)"

text \<open>The four \<^verbatim>\<open>help_\<close> methods: each prints its two strings joined by a line feed.\<close>

definition join_lines :: "string \<Rightarrow> string \<Rightarrow> string" where
  "join_lines a b = a @ [CHR 0x0A] @ b"

definition help_create :: "console \<Rightarrow> console" where
  "help_create s =
     print (Text (join_lines ''Usage: create <classname>''
                    ([CHR 0x0A] @ ''Creates a new <classname> instance'' @ [CHR 0x0A]))) s"

definition help_show :: "console \<Rightarrow> console" where
  "help_show s =
     print (Text (join_lines ''Usage: show <classname> <id>''
                    ([CHR 0x0A] @ ''Prints the string representation of an instance''
                      @ [CHR 0x0A]))) s"

definition help_destroy :: "console \<Rightarrow> console" where
  "help_destroy s =
     print (Text (join_lines ''Usage: destroy <classname> <id>''
                    ([CHR 0x0A] @ ''Deletes an instance based on the <class name> and <id>''
                      @ [CHR 0x0A]))) s"

definition help_all :: "console \<Rightarrow> console" where
  "help_all s =
     print (Text (join_lines ''Usage: all <classname>''
                    (join_lines
                       ([CHR 0x0A] @ ''Prints a list of str(<class>) for all objects, or objects'')
                       (''matching <classname>'' @ [CHR 0x0A])))) s"

text \<open>
  \<^verbatim>\<open>do_help\<close> hands over to \<^verbatim>\<open>cmd.Cmd.do_help\<close>, which calls the method
  \<^verbatim>\<open>help_<arg>\<close> when there is one and writes its own text otherwise.
\<close>

definition do_help :: "string \<Rightarrow> console \<Rightarrow> outcome \<times> console" where
  "do_help arg s =
     (if arg = ''create'' then (Continue, help_create s)
      else if arg = ''show'' then (Continue, help_show s)
      else if arg = ''destroy'' then (Continue, help_destroy s)
      else if arg = ''all'' then (Continue, help_all s)
      else (Continue, print (CmdHelp arg) s))"

section \<open>The command loop\<close>

text \<open>
  The loop is the one of Python's \<^verbatim>\<open>cmd.Cmd\<close>, which the console inherits.
  \<^verbatim>\<open>parseline\<close> strips the line, turns a leading \<open>?\<close> into \<open>help\<close>, gives no command
  for an empty line and for a leading \<open>!\<close> (the console has no \<^verbatim>\<open>do_shell\<close>), and
  otherwise cuts the line after its longest prefix of identifier characters. It returns
  the command with its argument, when there is one, and the line.
\<close>

definition identchars :: "char \<Rightarrow> bool" where
  "identchars c =
     (let n = (of_char c :: nat)
      in (65 \<le> n \<and> n \<le> 90) \<or> (97 \<le> n \<and> n \<le> 122) \<or> (48 \<le> n \<and> n \<le> 57) \<or> n = 95)"

definition cut_command :: "string \<Rightarrow> (string \<times> string) option \<times> string" where
  "cut_command line =
     (let i = length (takeWhile identchars line)
      in (Some (take i line, str_strip (drop i line)), line))"

definition parseline :: "string \<Rightarrow> (string \<times> string) option \<times> string" where
  "parseline line0 =
     (let line = str_strip line0
      in case line of
           [] \<Rightarrow> (None, line)
         | c # rest \<Rightarrow>
             if c = CHR ''?'' then cut_command (''help '' @ rest)
             else if c = CHR ''!'' then (None, line)
             else cut_command line)"

text \<open>\<^verbatim>\<open>cmd.Cmd.default\<close>\<close>

definition default_cmd :: "string \<Rightarrow> console \<Rightarrow> outcome \<times> console" where
  "default_cmd line s = (Continue, print (Text (''*** Unknown syntax: '' @ line)) s)"

text \<open>
  \<^verbatim>\<open>cmd.Cmd.onecmd\<close>: an empty line goes to \<^verbatim>\<open>emptyline\<close> before \<^verbatim>\<open>lastcmd\<close> is
  touched; a line with a command is remembered in \<^verbatim>\<open>lastcmd\<close> and goes to the method
  \<^verbatim>\<open>do_<cmd>\<close> when the console has it.
\<close>

definition onecmd :: "env \<Rightarrow> string \<Rightarrow> console \<Rightarrow> outcome \<times> console" where
  "onecmd e line0 s =
     (let (parsed, line) = parseline line0
      in if line = [] then emptyline s
         else case parsed of
                None \<Rightarrow> default_cmd line s
              | Some (cmd, arg) \<Rightarrow>
                  (let s1 = s\<lparr>lastcmd := (if line = ''EOF'' then [] else line)\<rparr>
                   in if cmd = [] then default_cmd line s1
                      else if cmd = ''help'' then do_help arg s1
                      else if cmd = ''EOF'' then do_EOF arg s1
                      else if cmd = ''quit'' then do_quit arg s1
                      else if cmd = ''create'' then do_create arg e s1
                      else if cmd = ''show'' then do_show arg s1
                      else if cmd = ''destroy'' then do_destroy arg s1
                      else if cmd = ''all'' then do_all arg s1
                      else default_cmd line s1))"

text \<open>
  \<^verbatim>\<open>cmd.Cmd.cmdloop\<close> over the lines read so far, each with what the outside gives the
  command: the loop ends at the first handler that returns \<open>True\<close> or raises.
\<close>

fun cmdloop :: "(env \<times> string) list \<Rightarrow> console \<Rightarrow> outcome \<times> console" where
  "cmdloop [] s = (Continue, s)"
| "cmdloop ((e, line) # rest) s =
     (case onecmd e line s of
        (Continue, s') \<Rightarrow> cmdloop rest s'
      | (Stop, s') \<Rightarrow> (Stop, s')
      | (Raised err, s') \<Rightarrow> (Raised err, s'))"

section \<open>Tokens and sample values\<close>

text \<open>
  A token is what \<^verbatim>\<open>split()\<close> gives back as one element: a non-empty string with no
  white space in it.
\<close>

definition is_token :: "string \<Rightarrow> bool" where
  "is_token t = (t \<noteq> [] \<and> list_all (\<lambda>c. \<not> isspace c) t)"

text \<open>A session that has just started on an empty storage, and two instances.\<close>

definition empty_console :: console where
  "empty_console = \<lparr>objects = [], json_file = None, saves = 0, stdout = [], lastcmd = []\<rparr>"

definition env_a :: env where
  "env_a = \<lparr>uuid4 = ''0e8f1a06-7c1b-4d9e-b1f3-2a5c9d4e6f70'',
             now_created = 100, now_updated = 101, now_saved = 102\<rparr>"

definition env_b :: env where
  "env_b = \<lparr>uuid4 = ''9b71c2d4-55aa-4e0f-8c36-17d2f0a4b3e9'',
             now_created = 200, now_updated = 201, now_saved = 202\<rparr>"

definition obj_a :: object where
  "obj_a = \<lparr>type_name = ''BaseModel'', obj_id = ''0e8f1a06-7c1b-4d9e-b1f3-2a5c9d4e6f70'',
             created_at = 100, updated_at = 102\<rparr>"

definition obj_b :: object where
  "obj_b = \<lparr>type_name = ''BaseModel'', obj_id = ''9b71c2d4-55aa-4e0f-8c36-17d2f0a4b3e9'',
             created_at = 200, updated_at = 202\<rparr>"

definition obj_u :: object where
  "obj_u = \<lparr>type_name = ''User'', obj_id = ''77'', created_at = 5, updated_at = 6\<rparr>"

definition console_ab :: console where
  "console_ab =
     \<lparr>objects = [(''BaseModel.0e8f1a06-7c1b-4d9e-b1f3-2a5c9d4e6f70'', obj_a),
                 (''User.77'', obj_u),
                 (''BaseModel.9b71c2d4-55aa-4e0f-8c36-17d2f0a4b3e9'', obj_b)],
      json_file = None, saves = 0, stdout = [], lastcmd = ''create BaseModel''\<rparr>"

text \<open>
  Two relations between the state before a command and the state after it: the storage
  map, the file and the count of writes are as before; or the file has just been written
  and holds the map.
\<close>

definition untouched :: "console \<Rightarrow> console \<Rightarrow> bool" where
  "untouched s s' = (objects s' = objects s \<and> json_file s' = json_file s \<and> saves s' = saves s)"

definition persisted :: "console \<Rightarrow> console \<Rightarrow> bool" where
  "persisted s s' = (json_file s' = Some (objects s') \<and> saves s' = Suc (saves s))"

section \<open>Splitting and the handlers on split arguments\<close>


lemma split_acc_nospace:
  "list_all (\<lambda>c. \<not> isspace c) t \<Longrightarrow> split_acc cur (t @ xs) = split_acc (cur @ t) xs"
  by (induction t arbitrary: cur) simp_all

lemma split_acc_spaces:
  "list_all isspace w \<Longrightarrow> split_acc [] (w @ xs) = split_acc [] xs"
  by (induction w) simp_all

lemma str_split_token_sep:
  assumes "is_token t" and "w \<noteq> []" and "list_all isspace w"
  shows "str_split (t @ w @ rest) = t # str_split rest"
proof -
  obtain c w' where w: "w = c # w'" using assms(2) by (cases w) auto
  have "split_acc [] (t @ w @ rest) = split_acc t (w @ rest)"
    using assms(1) split_acc_nospace [of t "[]" "w @ rest"] by (simp add: is_token_def)
  also have "\<dots> = t # split_acc [] (w' @ rest)"
    using assms(1,3) by (simp add: w is_token_def)
  also have "\<dots> = t # split_acc [] rest"
    using assms(3) by (simp add: w split_acc_spaces)
  finally show ?thesis by (simp add: str_split_def)
qed

lemma str_split_token: "is_token t \<Longrightarrow> str_split t = [t]"
  using split_acc_nospace [of t "[]" "[]"] by (simp add: str_split_def is_token_def)

lemma str_split_spaces: "list_all isspace w \<Longrightarrow> str_split w = []"
  using split_acc_spaces [of w "[]"] by (simp add: str_split_def)

lemma isspace_blank: "isspace CHR '' ''"
  by (simp add: isspace_def)

lemma is_token_BaseModel: "is_token ''BaseModel''"
  by (simp add: is_token_def isspace_def)

lemma known_class: "c \<in> set (dict_keys current_classes) \<longleftrightarrow> c = ''BaseModel''"
  by (simp add: dict_keys_def current_classes_def)

lemma print_fields:
  "objects (print x s) = objects s" "json_file (print x s) = json_file s"
  "saves (print x s) = saves s" "lastcmd (print x s) = lastcmd s"
  "stdout (print x s) = stdout s @ [x]"
  by (simp_all add: print_def)

lemma validate_empty:
  "validate_classname [] b s = (False, print (Text ''** class name missing ** '') s)"
  by (simp add: validate_classname_def)

lemma validate_unknown:
  "a0 \<notin> set (dict_keys current_classes) \<Longrightarrow>
   validate_classname (a0 # rest) b s = (False, print (Text ''** class doesn't exist ** '') s)"
  by (simp add: validate_classname_def)

lemma validate_noid:
  "a0 \<in> set (dict_keys current_classes) \<Longrightarrow>
   validate_classname [a0] True s = (False, print (Text ''** instance id missing **'') s)"
  by (simp add: validate_classname_def)

lemma validate_ok_create:
  "a0 \<in> set (dict_keys current_classes) \<Longrightarrow> validate_classname (a0 # rest) False s = (True, s)"
  by (simp add: validate_classname_def)

lemma validate_ok_id:
  "a0 \<in> set (dict_keys current_classes) \<Longrightarrow> validate_classname (a0 # a1 # rest) b s = (True, s)"
  by (simp add: validate_classname_def)

lemma do_show_args:
  assumes "str_split arg = a0 # a1 # rest" and "a0 \<in> set (dict_keys current_classes)"
  shows "do_show arg s =
     (case dict_get (objects s) (format_key a0 a1) of
        None \<Rightarrow> (Continue, print (Text ''** no instance found **'') s)
      | Some v \<Rightarrow> (Continue, print (Str v) s))"
  using assms by (simp add: do_show_def validate_ok_id storage_all_def)

lemma do_destroy_args:
  assumes "str_split arg = a0 # a1 # rest" and "a0 \<in> set (dict_keys current_classes)"
  shows "do_destroy arg s =
     (case dict_get (objects s) (format_key a0 a1) of
        None \<Rightarrow> (Continue, print (Text ''** no instance found **'') s)
      | Some v \<Rightarrow> (Continue, storage_save (s\<lparr>objects := AList.delete (format_key a0 a1) (objects s)\<rparr>)))"
  using assms
  by (simp add: do_destroy_def validate_ok_id storage_all_def dict_get_def dict_delitem_def
           split: option.splits)

lemma do_create_args:
  assumes "str_split arg = a0 # rest" and "a0 \<in> set (dict_keys current_classes)"
  shows "do_create arg e s =
     (let obj = \<lparr>type_name = a0, obj_id = uuid4 e, created_at = now_created e,
                  updated_at = now_saved e\<rparr>;
          key = format_key a0 (uuid4 e);
          d = AList.map_entry key (\<lambda>v. v\<lparr>updated_at := now_saved e\<rparr>)
                (AList.update key (obj\<lparr>updated_at := now_updated e\<rparr>) (objects s))
      in (Continue, print (Text (uuid4 e)) (s\<lparr>objects := d, json_file := Some d, saves := Suc (saves s)\<rparr>)))"
proof -
  have a0: "a0 = ''BaseModel''" using assms(2) by (simp add: known_class)
  have cls: "dict_getitem current_classes a0 = Inr BaseModel"
    by (simp add: a0 dict_getitem_def current_classes_def)
  show ?thesis
    using assms cls
    by (simp add: do_create_def validate_ok_create BaseModel_init_def BaseModel_save_def
          storage_new_def storage_save_def dict_setitem_def Let_def print_def a0)
qed

lemma do_rejects:
  "str_split arg = [] \<Longrightarrow> do_create arg e s = (Continue, print (Text ''** class name missing ** '') s)"
  "str_split arg = [] \<Longrightarrow> do_show arg s = (Continue, print (Text ''** class name missing ** '') s)"
  "str_split arg = [] \<Longrightarrow> do_destroy arg s = (Continue, print (Text ''** class name missing ** '') s)"
  by (simp_all add: do_create_def do_show_def do_destroy_def validate_empty)

lemma do_rejects_unknown:
  assumes "str_split arg = a0 # rest" and "a0 \<notin> set (dict_keys current_classes)"
  shows "do_create arg e s = (Continue, print (Text ''** class doesn't exist ** '') s)"
    and "do_show arg s = (Continue, print (Text ''** class doesn't exist ** '') s)"
    and "do_destroy arg s = (Continue, print (Text ''** class doesn't exist ** '') s)"
    and "do_all arg s = (Continue, print (Text ''** class doesn't exist ** '') s)"
  using assms
  by (simp_all add: do_create_def do_show_def do_destroy_def do_all_def validate_unknown)

lemma do_rejects_noid:
  assumes "str_split arg = [a0]" and "a0 \<in> set (dict_keys current_classes)"
  shows "do_show arg s = (Continue, print (Text ''** instance id missing **'') s)"
    and "do_destroy arg s = (Continue, print (Text ''** instance id missing **'') s)"
  using assms by (simp_all add: do_show_def do_destroy_def validate_noid)

lemma map_snd_filter: "map snd (filter (\<lambda>(_, v). P v) xs) = filter P (map snd xs)"
  by (induction xs) auto

lemma do_all_noargs:
  "str_split arg = [] \<Longrightarrow> do_all arg s = (Continue, print (StrList (dict_values (objects s))) s)"
  by (simp add: do_all_def storage_all_def dict_values_def)

lemma do_all_class:
  assumes "str_split arg = a0 # rest" and "a0 \<in> set (dict_keys current_classes)"
  shows "do_all arg s =
     (Continue, print (StrList (filter (\<lambda>v. type_name v = a0) (dict_values (objects s)))) s)"
  using assms by (simp add: do_all_def storage_all_def dict_values_def map_snd_filter)

section \<open>The command line\<close>

lemma split_acc_trailing:
  "list_all isspace w \<Longrightarrow> split_acc cur (y @ w) = split_acc cur y"
proof (induction y arbitrary: cur)
  case Nil
  have "list_all isspace w \<Longrightarrow> split_acc cur w = (if cur = [] then [] else [cur])" for cur
    by (induction w arbitrary: cur) (simp_all add: split_acc_spaces [of _ "[]", simplified])
  with Nil show ?case by simp
next
  case (Cons c y)
  then show ?case by simp
qed

lemma str_split_lstrip: "str_split (dropWhile isspace x) = str_split x"
proof -
  have "list_all isspace (takeWhile isspace x)"
    by (simp add: list_all_iff) (meson set_takeWhileD)
  then have "split_acc [] (takeWhile isspace x @ dropWhile isspace x) = split_acc [] (dropWhile isspace x)"
    by (rule split_acc_spaces)
  then show ?thesis by (simp add: str_split_def)
qed

lemma str_split_rstrip: "str_split (rev (dropWhile isspace (rev x))) = str_split x"
proof -
  let ?w = "rev (takeWhile isspace (rev x))"
  have w: "list_all isspace ?w"
    by (simp add: list_all_iff) (meson set_takeWhileD)
  have "x = rev (dropWhile isspace (rev x)) @ ?w"
    by (metis rev_append rev_rev_ident takeWhile_dropWhile_id)
  then have "split_acc [] x = split_acc [] (rev (dropWhile isspace (rev x)))"
    using split_acc_trailing [OF w, of "[]" "rev (dropWhile isspace (rev x))"] by simp
  then show ?thesis by (simp add: str_split_def)
qed

lemma str_split_strip: "str_split (str_strip x) = str_split x"
  by (simp add: str_strip_def str_split_rstrip str_split_lstrip)

lemma str_strip_empty_iff: "str_strip x = [] \<longleftrightarrow> list_all isspace x"
proof
  assume "str_strip x = []"
  then have all: "\<forall>c \<in> set (dropWhile isspace x). isspace c"
    by (simp add: str_strip_def dropWhile_eq_Nil_conv)
  have "dropWhile isspace x = []"
  proof (rule ccontr)
    assume ne: "dropWhile isspace x \<noteq> []"
    then have "\<not> isspace (hd (dropWhile isspace x))" by (rule hd_dropWhile)
    moreover have "hd (dropWhile isspace x) \<in> set (dropWhile isspace x)" using ne by simp
    ultimately show False using all by blast
  qed
  then show "list_all isspace x" by (simp add: list_all_iff dropWhile_eq_Nil_conv)
next
  assume "list_all isspace x"
  then have "dropWhile isspace x = []" by (simp add: list_all_iff)
  then show "str_strip x = []" by (simp only: str_strip_def rev.simps dropWhile.simps)
qed

lemma rstrip_word:
  assumes "v \<noteq> []" and "list_all (\<lambda>c. \<not> isspace c) v"
  shows "str_strip (v @ rest) = v @ rev (dropWhile isspace (rev rest))"
proof -
  obtain c v' where v: "v = c # v'" using assms(1) by (cases v) auto
  have l: "dropWhile isspace (v @ rest) = v @ rest"
    using assms(2) by (simp add: v)
  have last: "\<not> isspace (last v)"
    using assms by (metis last_in_set list_all_iff)
  have rv: "dropWhile isspace (rev v) = rev v"
    using last assms(1) by (cases "rev v") (auto simp: hd_rev dest: arg_cong [where f = hd])
  have "dropWhile isspace (rev rest @ rev v) = dropWhile isspace (rev rest) @ rev v"
  proof (cases "\<forall>x \<in> set (rev rest). isspace x")
    case True
    then have e: "dropWhile isspace (rev rest) = []" by simp
    have "dropWhile isspace (rev rest @ rev v) = dropWhile isspace (rev v)"
      using True by (intro dropWhile_append2) blast
    then show ?thesis by (simp only: e rv append_Nil)
  next
    case False
    then obtain x where "x \<in> set (rev rest)" and "\<not> isspace x" by blast
    then show ?thesis by (rule dropWhile_append1)
  qed
  then show ?thesis by (simp add: str_strip_def l)
qed

lemma identchars_plain:
  "identchars c \<Longrightarrow> \<not> isspace c \<and> c \<noteq> CHR ''?'' \<and> c \<noteq> CHR ''!''"
  by (auto simp: identchars_def isspace_def Let_def)

lemma handlers_split_only:
  assumes "str_split a = str_split b"
  shows "do_create a e s = do_create b e s" and "do_show a s = do_show b s"
    and "do_destroy a s = do_destroy b s" and "do_all a s = do_all b s"
  using assms by (simp_all add: do_create_def do_show_def do_destroy_def do_all_def)

lemma parseline_word:
  assumes "v \<noteq> []" and "list_all identchars v" and "rest = [] \<or> isspace (hd rest)"
  shows "\<exists>arg r. parseline (v @ rest) = (Some (v, arg), v @ r) \<and> str_strip (v @ rest) = v @ r \<and>
               str_split arg = str_split rest"
proof -
  define r where "r = rev (dropWhile isspace (rev rest))"
  obtain c v' where v: "v = c # v'" using assms(1) by (cases v) auto
  have plain: "list_all (\<lambda>c. \<not> isspace c) v"
    using assms(2) by (simp add: list_all_iff identchars_plain)
  have line: "str_strip (v @ rest) = v @ r"
    unfolding r_def using assms(1) plain by (rule rstrip_word)
  have c: "c \<noteq> CHR ''?''" "c \<noteq> CHR ''!''"
    using assms(2) by (simp_all add: v identchars_plain)
  have stop: "takeWhile identchars r = []"
  proof (cases r)
    case (Cons a as)
    have "rest = r @ rev (takeWhile isspace (rev rest))"
      unfolding r_def by (metis rev_append rev_rev_ident takeWhile_dropWhile_id)
    then have "hd rest = a" and "rest \<noteq> []" using Cons by (metis hd_append2 list.sel(1) list.distinct(1), auto)
    then have "isspace a" using assms(3) by simp
    then have "\<not> identchars a" using identchars_plain by blast
    then show ?thesis by (simp add: Cons)
  qed simp
  have tw: "takeWhile identchars (v @ r) = v"
    using assms(2) stop by (simp add: list_all_iff takeWhile_append2)
  have cut: "cut_command (v @ r) = (Some (v, str_strip r), v @ r)"
    by (simp add: cut_command_def tw)
  have "parseline (v @ rest) = (Some (v, str_strip r), v @ r)"
    using c cut by (simp add: parseline_def line) (simp add: v)
  moreover have "str_split (str_strip r) = str_split rest"
    by (simp add: r_def str_split_strip str_split_rstrip)
  ultimately show ?thesis using line by blast
qed

lemma onecmd_word:
  assumes "v \<noteq> []" and "list_all identchars v" and "rest = [] \<or> isspace (hd rest)"
    and "v \<noteq> ''EOF''"
  shows "\<exists>arg. str_split arg = str_split rest \<and>
           onecmd e (v @ rest) s =
             (let s1 = s\<lparr>lastcmd := str_strip (v @ rest)\<rparr>
              in if v = ''help'' then do_help arg s1
                 else if v = ''quit'' then do_quit arg s1
                 else if v = ''create'' then do_create arg e s1
                 else if v = ''show'' then do_show arg s1
                 else if v = ''destroy'' then do_destroy arg s1
                 else if v = ''all'' then do_all arg s1
                 else default_cmd (str_strip (v @ rest)) s1)"
proof -
  obtain arg r where p: "parseline (v @ rest) = (Some (v, arg), v @ r)"
    and l: "str_strip (v @ rest) = v @ r" and a: "str_split arg = str_split rest"
    using parseline_word [OF assms(1-3)] by blast
  have ne: "v @ r \<noteq> []" using assms(1) by simp
  have neof: "v @ r \<noteq> ''EOF''"
  proof
    assume eq: "v @ r = ''EOF''"
    have rr: "r = [] \<or> \<not> identchars (hd r)"
    proof (cases "r = []")
      case False
      have "rest = r @ rev (takeWhile isspace (rev rest))"
        using l assms(1) rstrip_word [of v rest] assms(2)
        by (metis identchars_plain list_all_iff rev_append rev_rev_ident same_append_eq takeWhile_dropWhile_id)
      then have "hd rest = hd r" and "rest \<noteq> []" using False by (metis hd_append2, auto)
      then show ?thesis using assms(3) identchars_plain by auto
    qed simp
    have "list_all identchars (v @ r)" unfolding eq by (simp add: identchars_def)
    then have "r = []" using rr by (cases r) auto
    then show False using eq assms(4) by simp
  qed
  have main: "onecmd e (v @ rest) s =
             (let s1 = s\<lparr>lastcmd := v @ r\<rparr>
              in if v = ''help'' then do_help arg s1
                 else if v = ''quit'' then do_quit arg s1
                 else if v = ''create'' then do_create arg e s1
                 else if v = ''show'' then do_show arg s1
                 else if v = ''destroy'' then do_destroy arg s1
                 else if v = ''all'' then do_all arg s1
                 else default_cmd (v @ r) s1)"
    unfolding onecmd_def p using ne neof assms(1,4) by (simp add: Let_def)
  show ?thesis
    unfolding l by (rule exI [of _ arg], rule conjI, rule a, rule main)
qed

lemma onecmd_create:
  assumes "rest = [] \<or> isspace (hd rest)"
  shows "onecmd e (''create'' @ rest) s
           = do_create rest e (s\<lparr>lastcmd := str_strip (''create'' @ rest)\<rparr>)"
proof -
  have "list_all identchars ''create''" by (simp add: identchars_def)
  from onecmd_word [OF _ this assms, of e s]
  obtain arg where a: "str_split arg = str_split rest"
    and "onecmd e (''create'' @ rest) s
           = do_create arg e (s\<lparr>lastcmd := str_strip (''create'' @ rest)\<rparr>)"
    by (auto simp: Let_def)
  then show ?thesis using handlers_split_only(1) [OF a] by simp
qed

lemma onecmd_show:
  assumes "rest = [] \<or> isspace (hd rest)"
  shows "onecmd e (''show'' @ rest) s = do_show rest (s\<lparr>lastcmd := str_strip (''show'' @ rest)\<rparr>)"
proof -
  have "list_all identchars ''show''" by (simp add: identchars_def)
  from onecmd_word [OF _ this assms, of e s]
  obtain arg where a: "str_split arg = str_split rest"
    and "onecmd e (''show'' @ rest) s = do_show arg (s\<lparr>lastcmd := str_strip (''show'' @ rest)\<rparr>)"
    by (auto simp: Let_def)
  then show ?thesis using handlers_split_only(2) [OF a] by simp
qed

lemma onecmd_destroy:
  assumes "rest = [] \<or> isspace (hd rest)"
  shows "onecmd e (''destroy'' @ rest) s
           = do_destroy rest (s\<lparr>lastcmd := str_strip (''destroy'' @ rest)\<rparr>)"
proof -
  have "list_all identchars ''destroy''" by (simp add: identchars_def)
  from onecmd_word [OF _ this assms, of e s]
  obtain arg where a: "str_split arg = str_split rest"
    and "onecmd e (''destroy'' @ rest) s
           = do_destroy arg (s\<lparr>lastcmd := str_strip (''destroy'' @ rest)\<rparr>)"
    by (auto simp: Let_def)
  then show ?thesis using handlers_split_only(3) [OF a] by simp
qed

lemma onecmd_all:
  assumes "rest = [] \<or> isspace (hd rest)"
  shows "onecmd e (''all'' @ rest) s = do_all rest (s\<lparr>lastcmd := str_strip (''all'' @ rest)\<rparr>)"
proof -
  have "list_all identchars ''all''" by (simp add: identchars_def)
  from onecmd_word [OF _ this assms, of e s]
  obtain arg where a: "str_split arg = str_split rest"
    and "onecmd e (''all'' @ rest) s = do_all arg (s\<lparr>lastcmd := str_strip (''all'' @ rest)\<rparr>)"
    by (auto simp: Let_def)
  then show ?thesis using handlers_split_only(4) [OF a] by simp
qed

lemma split_class_id:
  assumes "is_token c" and "is_token i"
  shows "str_split (c @ '' '' @ i) = [c, i]"
  using str_split_token_sep [OF assms(1), of "'' ''" i] str_split_token [OF assms(2)]
  by (simp add: isspace_blank)

lemma unchanged_fields:
  "objects (s\<lparr>lastcmd := l\<rparr>) = objects s" "json_file (s\<lparr>lastcmd := l\<rparr>) = json_file s"
  "saves (s\<lparr>lastcmd := l\<rparr>) = saves s" "stdout (s\<lparr>lastcmd := l\<rparr>) = stdout s"
  by simp_all

lemma do_show_untouched: "untouched s (snd (do_show arg s))"
  by (auto simp: untouched_def do_show_def validate_classname_def storage_all_def print_fields
        Let_def split: list.splits option.splits)

lemma do_all_untouched: "untouched s (snd (do_all arg s))"
  by (auto simp: untouched_def do_all_def storage_all_def print_fields Let_def split: list.splits)

lemma do_help_untouched: "untouched s (snd (do_help arg s))"
  by (simp add: untouched_def do_help_def help_create_def help_show_def help_destroy_def
        help_all_def print_fields)

lemma do_create_effect: "untouched s (snd (do_create arg e s)) \<or> persisted s (snd (do_create arg e s))"
proof (cases "str_split arg")
  case Nil
  then show ?thesis by (simp add: do_rejects untouched_def print_fields)
next
  case (Cons a0 rest)
  show ?thesis
  proof (cases "a0 \<in> set (dict_keys current_classes)")
    case True
    with Cons show ?thesis by (simp add: do_create_args persisted_def Let_def print_fields)
  next
    case False
    with Cons show ?thesis by (simp add: do_rejects_unknown untouched_def print_fields)
  qed
qed

lemma do_destroy_effect:
  "untouched s (snd (do_destroy arg s)) \<or> persisted s (snd (do_destroy arg s))"
  by (auto simp: untouched_def persisted_def do_destroy_def validate_classname_def storage_all_def
        print_fields Let_def dict_delitem_def dict_get_def storage_save_def
        split: list.splits option.splits)

lemma onecmd_effect: "untouched s (snd (onecmd e line s)) \<or> persisted s (snd (onecmd e line s))"
proof -
  have u: "untouched (s\<lparr>lastcmd := l\<rparr>) s' = untouched s s'" for l s'
    by (simp add: untouched_def)
  have p: "persisted (s\<lparr>lastcmd := l\<rparr>) s' = persisted s s'" for l s'
    by (simp add: persisted_def)
  have d: "untouched s0 (snd (default_cmd l s0))" for l s0
    by (simp add: untouched_def default_cmd_def print_fields)
  have q: "untouched s0 (snd (do_quit l s0))" "untouched s0 (snd (do_EOF l s0))"
    "untouched s0 (snd (emptyline s0))" for l s0
    by (simp_all add: untouched_def do_quit_def do_EOF_def emptyline_def)
  obtain parsed l where pl: "parseline line = (parsed, l)" by (cases "parseline line")
  show ?thesis
  proof (cases "l = []")
    case True
    then show ?thesis using q(3) [of s] by (simp add: onecmd_def pl)
  next
    case False
    show ?thesis
    proof (cases parsed)
      case None
      then show ?thesis using False d [of s l] by (simp add: onecmd_def pl)
    next
      case (Some ca)
      obtain cmd arg where ca: "ca = (cmd, arg)" by (cases ca)
      let ?s1 = "s\<lparr>lastcmd := (if l = ''EOF'' then [] else l)\<rparr>"
      have "untouched ?s1 (snd (onecmd e line s)) \<or> persisted ?s1 (snd (onecmd e line s))"
        using False d [of ?s1 l] q(1,2) [of ?s1 arg] do_help_untouched [of ?s1 arg]
          do_show_untouched [of ?s1 arg] do_all_untouched [of ?s1 arg]
          do_create_effect [of ?s1 arg e] do_destroy_effect [of ?s1 arg]
        by (simp add: onecmd_def pl Some ca Let_def del: One_nat_def)
      then show ?thesis by (simp only: u p)
    qed
  qed
qed

lemma known_class_token: "c \<in> set (dict_keys current_classes) \<Longrightarrow> is_token c"
  by (simp add: known_class is_token_BaseModel)

lemma blank_then: "'' '' @ x = [] \<or> isspace (hd ('' '' @ x))"
  by (simp add: isspace_blank)

lemma str_split_blank: "str_split ('' '' @ x) = str_split x"
  using split_acc_spaces [of "'' ''" x] by (simp add: str_split_def isspace_blank)

lemma cmdloop_continue:
  "onecmd e line s = (Continue, s') \<Longrightarrow> cmdloop ((e, line) # later) s = cmdloop later s'"
  by simp

lemma create_args_result:
  assumes "str_split arg = c # rest" and "c \<in> set (dict_keys current_classes)"
  shows "\<exists>s1 obj.
           do_create arg e s = (Continue, s1) \<and>
           stdout s1 = stdout s @ [Text (uuid4 e)] \<and>
           dict_get (objects s1) (format_key c (uuid4 e)) = Some obj \<and>
           type_name obj = c \<and> obj_id obj = uuid4 e \<and> created_at obj = now_created e \<and>
           json_file s1 = Some (objects s1) \<and> saves s1 = Suc (saves s)"
proof -
  let ?key = "format_key c (uuid4 e)"
  let ?obj = "\<lparr>type_name = c, obj_id = uuid4 e, created_at = now_created e,
                updated_at = now_saved e\<rparr>"
  let ?d = "AList.map_entry ?key (\<lambda>v. v\<lparr>updated_at := now_saved e\<rparr>)
              (AList.update ?key (?obj\<lparr>updated_at := now_updated e\<rparr>) (objects s))"
  let ?s1 = "print (Text (uuid4 e)) (s\<lparr>objects := ?d, json_file := Some ?d, saves := Suc (saves s)\<rparr>)"
  have create: "do_create arg e s = (Continue, ?s1)"
    using assms by (simp add: do_create_args Let_def)
  have look: "dict_get (objects ?s1) ?key = Some ?obj"
    by (simp add: print_fields dict_get_def map_of_map_entry update_conv')
  have rest: "stdout ?s1 = stdout s @ [Text (uuid4 e)]" "json_file ?s1 = Some (objects ?s1)"
    "saves ?s1 = Suc (saves s)"
    by (simp_all add: print_fields)
  show ?thesis using create look rest by fastforce
qed

lemma show_args_found:
  assumes "str_split arg = c # i # rest" and "c \<in> set (dict_keys current_classes)"
    and "dict_get (objects s) (format_key c i) = Some obj"
  shows "do_show arg s = (Continue, print (Str obj) s)"
  using assms by (simp add: do_show_args)

lemma show_args_missing:
  assumes "str_split arg = c # i # rest" and "c \<in> set (dict_keys current_classes)"
    and "dict_get (objects s) (format_key c i) = None"
  shows "do_show arg s = (Continue, print (Text ''** no instance found **'') s)"
  using assms by (simp add: do_show_args)

lemma delete_not_key: "k \<notin> set (dict_keys (AList.delete k d))"
  by (simp add: dict_keys_def AList.delete_eq image_iff)

lemma destroy_args_result:
  assumes "str_split arg = c # i # rest" and "c \<in> set (dict_keys current_classes)"
    and "dict_get (objects s) (format_key c i) = Some v"
  shows "\<exists>s1.
           do_destroy arg s = (Continue, s1) \<and>
           format_key c i \<notin> set (dict_keys (objects s1)) \<and>
           dict_get (objects s1) (format_key c i) = None \<and>
           (\<forall>k. k \<noteq> format_key c i \<longrightarrow> dict_get (objects s1) k = dict_get (objects s) k) \<and>
           stdout s1 = stdout s \<and>
           json_file s1 = Some (objects s1) \<and> saves s1 = Suc (saves s)"
proof -
  let ?key = "format_key c i"
  let ?s1 = "storage_save (s\<lparr>objects := AList.delete ?key (objects s)\<rparr>)"
  have destroy: "do_destroy arg s = (Continue, ?s1)"
    using assms by (simp add: do_destroy_args)
  have objs: "objects ?s1 = AList.delete ?key (objects s)"
    by (simp add: storage_save_def)
  have gone: "dict_get (objects ?s1) ?key = None"
    by (simp add: objs dict_get_def delete_conv')
  have others: "\<forall>k. k \<noteq> ?key \<longrightarrow> dict_get (objects ?s1) k = dict_get (objects s) k"
    by (simp add: objs dict_get_def delete_conv')
  have nokey: "?key \<notin> set (dict_keys (objects ?s1))"
    unfolding objs by (rule delete_not_key)
  have out: "stdout ?s1 = stdout s" "json_file ?s1 = Some (objects ?s1)" "saves ?s1 = Suc (saves s)"
    by (simp_all add: storage_save_def)
  from destroy gone others nokey out show ?thesis by blast
qed

lemma untouched_keys: "untouched s s' \<Longrightarrow> dict_keys (objects s') = dict_keys (objects s)"
  by (simp add: untouched_def)

lemma do_create_distinct:
  assumes "distinct (dict_keys (objects s))"
  shows "distinct (dict_keys (objects (snd (do_create arg e s))))"
proof (cases "str_split arg")
  case Nil
  then show ?thesis using assms by (simp add: do_rejects print_fields)
next
  case (Cons a0 rest)
  show ?thesis
  proof (cases "a0 \<in> set (dict_keys current_classes)")
    case True
    have "distinct (map fst (AList.map_entry k f (AList.update k v (objects s))))" for k f v
      using assms by (simp add: dict_keys_def distinct_map_entry distinct_update)
    with Cons True show ?thesis
      by (simp add: do_create_args Let_def print_fields dict_keys_def)
  next
    case False
    with Cons show ?thesis using assms by (simp add: do_rejects_unknown print_fields)
  qed
qed

lemma do_destroy_distinct:
  assumes "distinct (dict_keys (objects s))"
  shows "distinct (dict_keys (objects (snd (do_destroy arg s))))"
  using assms
  by (auto simp: do_destroy_def validate_classname_def storage_all_def print_fields Let_def
        dict_delitem_def dict_get_def storage_save_def dict_keys_def distinct_delete
        split: list.splits option.splits)

lemma onecmd_distinct:
  assumes "distinct (dict_keys (objects s))"
  shows "distinct (dict_keys (objects (snd (onecmd e line s))))"
proof -
  have d: "untouched s0 (snd (default_cmd l s0))" for l s0
    by (simp add: untouched_def default_cmd_def print_fields)
  have q: "untouched s0 (snd (do_quit l s0))" "untouched s0 (snd (do_EOF l s0))"
    "untouched s0 (snd (emptyline s0))" for l s0
    by (simp_all add: untouched_def do_quit_def do_EOF_def emptyline_def)
  obtain parsed l where pl: "parseline line = (parsed, l)" by (cases "parseline line")
  show ?thesis
  proof (cases "l = []")
    case True
    then show ?thesis using assms by (simp add: onecmd_def pl emptyline_def)
  next
    case False
    show ?thesis
    proof (cases parsed)
      case None
      then show ?thesis using False assms by (simp add: onecmd_def pl default_cmd_def print_fields)
    next
      case (Some ca)
      obtain cmd arg where ca: "ca = (cmd, arg)" by (cases ca)
      let ?s1 = "s\<lparr>lastcmd := (if l = ''EOF'' then [] else l)\<rparr>"
      have s1: "distinct (dict_keys (objects ?s1))" using assms by simp
      show ?thesis
        using False s1 untouched_keys [OF d [of ?s1 l]] untouched_keys [OF q(1) [of ?s1 arg]]
          untouched_keys [OF q(2) [of ?s1 arg]] untouched_keys [OF do_help_untouched [of ?s1 arg]]
          untouched_keys [OF do_show_untouched [of ?s1 arg]]
          untouched_keys [OF do_all_untouched [of ?s1 arg]]
          do_create_distinct [OF s1, of arg e] do_destroy_distinct [OF s1, of arg]
        by (simp add: onecmd_def pl Some ca Let_def)
    qed
  qed
qed

lemma cmdloop_distinct:
  "distinct (dict_keys (objects s)) \<Longrightarrow> distinct (dict_keys (objects (snd (cmdloop lines s))))"
proof (induction lines arbitrary: s)
  case Nil
  then show ?case by simp
next
  case (Cons el lines)
  obtain e line where el: "el = (e, line)" by (cases el)
  obtain r s' where step: "onecmd e line s = (r, s')" by (cases "onecmd e line s")
  have s': "distinct (dict_keys (objects s'))"
    using onecmd_distinct [OF Cons.prems, of e line] step by simp
  show ?case
  proof (cases r)
    case Continue
    then show ?thesis using Cons.IH [OF s'] step by (simp add: el)
  next
    case Stop
    then show ?thesis using s' step by (simp add: el)
  next
    case (Raised err)
    then show ?thesis using s' step by (simp add: el)
  qed
qed

lemma handlers_first_two:
  assumes "str_split a = c # i # ra" and "str_split b = c # i # rb"
  shows "do_show a s = do_show b s" and "do_destroy a s = do_destroy b s"
proof -
  show "do_show a s = do_show b s"
  proof (cases "c \<in> set (dict_keys current_classes)")
    case True
    then show ?thesis by (simp add: do_show_args [OF assms(1)] do_show_args [OF assms(2)])
  next
    case False
    then show ?thesis
      by (simp add: do_rejects_unknown(2) [OF assms(1)] do_rejects_unknown(2) [OF assms(2)])
  qed
  show "do_destroy a s = do_destroy b s"
  proof (cases "c \<in> set (dict_keys current_classes)")
    case True
    then show ?thesis by (simp add: do_destroy_args [OF assms(1)] do_destroy_args [OF assms(2)])
  next
    case False
    then show ?thesis
      by (simp add: do_rejects_unknown(3) [OF assms(1)] do_rejects_unknown(3) [OF assms(2)])
  qed
qed

lemma create_first_one:
  assumes "str_split a = c # ra" and "str_split b = c # rb"
  shows "do_create a e s = do_create b e s"
proof (cases "c \<in> set (dict_keys current_classes)")
  case True
  then show ?thesis by (simp add: do_create_args [OF assms(1)] do_create_args [OF assms(2)])
next
  case False
  then show ?thesis
    by (simp add: do_rejects_unknown(1) [OF assms(1)] do_rejects_unknown(1) [OF assms(2)])
qed

lemma invalid_stops:
  "validate_classname (str_split arg) False s = (False, s1) \<Longrightarrow> do_create arg e s = (Continue, s1)"
  "validate_classname (str_split arg) True s = (False, s1) \<Longrightarrow> do_show arg s = (Continue, s1)"
  "validate_classname (str_split arg) True s = (False, s1) \<Longrightarrow> do_destroy arg s = (Continue, s1)"
  by (simp_all add: do_create_def do_show_def do_destroy_def)

lemma validate_fails:
  assumes "args = [] \<or> (\<exists>a0 rest. args = a0 # rest \<and> a0 \<notin> set (dict_keys current_classes)) \<or>
           (check_id \<and> length args = 1)"
  shows "\<exists>m \<in> {''** class name missing ** '', ''** class doesn't exist ** '',
                 ''** instance id missing **''}.
           validate_classname args check_id s = (False, print (Text m) s)"
proof (cases args)
  case Nil
  then show ?thesis by (simp add: validate_classname_def)
next
  case (Cons a0 rest)
  show ?thesis
  proof (cases "a0 \<in> set (dict_keys current_classes)")
    case True
    with Cons assms have "check_id" and "rest = []" by auto
    with Cons True show ?thesis by (simp add: validate_classname_def)
  next
    case False
    with Cons show ?thesis by (simp add: validate_classname_def)
  qed
qed

text \<open>
  What the four handlers that take a class name do with a name that is not a key of
  \<^verbatim>\<open>current_classes\<close>, called directly and through the command loop.
\<close>

lemma unknown_class_prints:
  assumes "str_split arg = a0 # rest" and "a0 \<notin> set (dict_keys current_classes)"
  shows "(\<forall>r \<in> {do_create arg e s, do_show arg s, do_destroy arg s, do_all arg s}.
            r = (Continue, print (Text ''** class doesn't exist ** '') s) \<and>
            stdout (snd r) = stdout s @ [Text ''** class doesn't exist ** ''] \<and>
            objects (snd r) = objects s \<and> json_file (snd r) = json_file s \<and>
            saves (snd r) = saves s) \<and>
         (\<forall>verb \<in> {''create'', ''show'', ''destroy'', ''all''}.
            onecmd e (verb @ '' '' @ arg) s =
              (Continue, print (Text ''** class doesn't exist ** '')
                           (s\<lparr>lastcmd := str_strip (verb @ '' '' @ arg)\<rparr>)))"
proof
  show "\<forall>r \<in> {do_create arg e s, do_show arg s, do_destroy arg s, do_all arg s}.
            r = (Continue, print (Text ''** class doesn't exist ** '') s) \<and>
            stdout (snd r) = stdout s @ [Text ''** class doesn't exist ** ''] \<and>
            objects (snd r) = objects s \<and> json_file (snd r) = json_file s \<and>
            saves (snd r) = saves s"
    using do_rejects_unknown [OF assms] by (simp add: print_fields)
next
  have sp: "str_split ('' '' @ arg) = a0 # rest"
    using assms(1) by (simp only: str_split_blank)
  note rej = do_rejects_unknown [OF sp assms(2)]
  have "onecmd e (''create'' @ '' '' @ arg) s =
          (Continue, print (Text ''** class doesn't exist ** '')
                       (s\<lparr>lastcmd := str_strip (''create'' @ '' '' @ arg)\<rparr>))"
    by (simp only: onecmd_create [OF blank_then] rej)
  moreover have "onecmd e (''show'' @ '' '' @ arg) s =
          (Continue, print (Text ''** class doesn't exist ** '')
                       (s\<lparr>lastcmd := str_strip (''show'' @ '' '' @ arg)\<rparr>))"
    by (simp only: onecmd_show [OF blank_then] rej)
  moreover have "onecmd e (''destroy'' @ '' '' @ arg) s =
          (Continue, print (Text ''** class doesn't exist ** '')
                       (s\<lparr>lastcmd := str_strip (''destroy'' @ '' '' @ arg)\<rparr>))"
    by (simp only: onecmd_destroy [OF blank_then] rej)
  moreover have "onecmd e (''all'' @ '' '' @ arg) s =
          (Continue, print (Text ''** class doesn't exist ** '')
                       (s\<lparr>lastcmd := str_strip (''all'' @ '' '' @ arg)\<rparr>))"
    by (simp only: onecmd_all [OF blank_then] rej)
  ultimately show "\<forall>verb \<in> {''create'', ''show'', ''destroy'', ''all''}.
            onecmd e (verb @ '' '' @ arg) s =
              (Continue, print (Text ''** class doesn't exist ** '')
                           (s\<lparr>lastcmd := str_strip (verb @ '' '' @ arg)\<rparr>))"
    by blast
qed

section \<open>Properties of the commands\<close>

text \<open>
  C1. In every state of the storage, \<^verbatim>\<open>create <class>\<close> with a known class name prints
  the identifier of the new instance and goes on; the instance is then stored under the key
  of the class name and that identifier, and \<^verbatim>\<open>show <class> <id>\<close> with the printed
  identifier prints the string representation of that instance, not an error. This holds
  for the handlers called with these arguments and for the two lines given to the command
  loop. The identifier is one token, as a UUID is.
\<close>

theorem create_then_show:
  assumes "c \<in> set (dict_keys current_classes)" and "is_token (uuid4 e)"
  shows "(\<exists>s1 obj.
            do_create c e s = (Continue, s1) \<and>
            stdout s1 = stdout s @ [Text (uuid4 e)] \<and>
            dict_get (objects s1) (format_key c (uuid4 e)) = Some obj \<and>
            type_name obj = c \<and> obj_id obj = uuid4 e \<and> created_at obj = now_created e \<and>
            do_show (c @ '' '' @ uuid4 e) s1 = (Continue, print (Str obj) s1)) \<and>
         (\<exists>s1 obj s2.
            onecmd e (''create '' @ c) s = (Continue, s1) \<and>
            stdout s1 = stdout s @ [Text (uuid4 e)] \<and>
            dict_get (objects s1) (format_key c (uuid4 e)) = Some obj \<and>
            type_name obj = c \<and> obj_id obj = uuid4 e \<and> created_at obj = now_created e \<and>
            onecmd e' (''show '' @ c @ '' '' @ uuid4 e) s1 = (Continue, s2) \<and>
            stdout s2 = stdout s1 @ [Str obj] \<and> objects s2 = objects s1)"
proof
  have tok: "is_token c" using assms(1) by (rule known_class_token)
  have c1: "str_split c = [c]" using tok by (rule str_split_token)
  have c2: "str_split (c @ '' '' @ uuid4 e) = [c, uuid4 e]"
    using tok assms(2) by (rule split_class_id)
  obtain s1 obj where create: "do_create c e s = (Continue, s1)"
    and out: "stdout s1 = stdout s @ [Text (uuid4 e)]"
    and look: "dict_get (objects s1) (format_key c (uuid4 e)) = Some obj"
    and obj: "type_name obj = c" "obj_id obj = uuid4 e" "created_at obj = now_created e"
    using create_args_result [OF c1 assms(1), of e s] by blast
  have "do_show (c @ '' '' @ uuid4 e) s1 = (Continue, print (Str obj) s1)"
    using c2 assms(1) look by (rule show_args_found)
  with create out look obj
  show "\<exists>s1 obj.
            do_create c e s = (Continue, s1) \<and>
            stdout s1 = stdout s @ [Text (uuid4 e)] \<and>
            dict_get (objects s1) (format_key c (uuid4 e)) = Some obj \<and>
            type_name obj = c \<and> obj_id obj = uuid4 e \<and> created_at obj = now_created e \<and>
            do_show (c @ '' '' @ uuid4 e) s1 = (Continue, print (Str obj) s1)"
    by blast
next
  let ?s0 = "s\<lparr>lastcmd := str_strip (''create'' @ '' '' @ c)\<rparr>"
  have tok: "is_token c" using assms(1) by (rule known_class_token)
  have c1: "str_split ('' '' @ c) = [c]"
    using tok by (simp only: str_split_blank str_split_token)
  have c2: "str_split ('' '' @ c @ '' '' @ uuid4 e) = [c, uuid4 e]"
    using tok assms(2) by (simp only: str_split_blank split_class_id)
  have line1: "onecmd e (''create'' @ '' '' @ c) s = do_create ('' '' @ c) e ?s0"
    using blank_then by (rule onecmd_create)
  obtain s1 obj where create: "do_create ('' '' @ c) e ?s0 = (Continue, s1)"
    and out: "stdout s1 = stdout ?s0 @ [Text (uuid4 e)]"
    and look: "dict_get (objects s1) (format_key c (uuid4 e)) = Some obj"
    and obj: "type_name obj = c" "obj_id obj = uuid4 e" "created_at obj = now_created e"
    using create_args_result [OF c1 assms(1), of e ?s0] by blast
  let ?s1' = "s1\<lparr>lastcmd := str_strip (''show'' @ '' '' @ c @ '' '' @ uuid4 e)\<rparr>"
  have line2: "onecmd e' (''show'' @ '' '' @ c @ '' '' @ uuid4 e) s1
                 = do_show ('' '' @ c @ '' '' @ uuid4 e) ?s1'"
    using blank_then by (rule onecmd_show)
  have look': "dict_get (objects ?s1') (format_key c (uuid4 e)) = Some obj"
    using look by simp
  have shown: "do_show ('' '' @ c @ '' '' @ uuid4 e) ?s1' = (Continue, print (Str obj) ?s1')"
    using c2 assms(1) look' by (rule show_args_found)
  have "onecmd e (''create '' @ c) s = (Continue, s1)"
    using line1 create by simp
  moreover have "stdout s1 = stdout s @ [Text (uuid4 e)]"
    using out by simp
  moreover have "onecmd e' (''show '' @ c @ '' '' @ uuid4 e) s1 = (Continue, print (Str obj) ?s1')"
    using line2 shown by simp
  moreover have "stdout (print (Str obj) ?s1') = stdout s1 @ [Str obj]"
    "objects (print (Str obj) ?s1') = objects s1"
    by (simp_all add: print_fields)
  ultimately show "\<exists>s1 obj s2.
            onecmd e (''create '' @ c) s = (Continue, s1) \<and>
            stdout s1 = stdout s @ [Text (uuid4 e)] \<and>
            dict_get (objects s1) (format_key c (uuid4 e)) = Some obj \<and>
            type_name obj = c \<and> obj_id obj = uuid4 e \<and> created_at obj = now_created e \<and>
            onecmd e' (''show '' @ c @ '' '' @ uuid4 e) s1 = (Continue, s2) \<and>
            stdout s2 = stdout s1 @ [Str obj] \<and> objects s2 = objects s1"
    using look obj by blast
qed

theorem create_then_show_witness:
  "''BaseModel'' \<in> set (dict_keys current_classes) \<and> is_token (uuid4 env_a) \<and>
   (\<exists>s1 obj.
      do_create ''BaseModel'' env_a console_ab = (Continue, s1) \<and>
      stdout s1 = [Text ''0e8f1a06-7c1b-4d9e-b1f3-2a5c9d4e6f70''] \<and>
      obj_id obj = ''0e8f1a06-7c1b-4d9e-b1f3-2a5c9d4e6f70'' \<and>
      do_show ''BaseModel 0e8f1a06-7c1b-4d9e-b1f3-2a5c9d4e6f70'' s1
        = (Continue, print (Str obj) s1)) \<and>
   (\<exists>s1 obj s2.
      onecmd env_a ''create BaseModel'' console_ab = (Continue, s1) \<and>
      obj_id obj = ''0e8f1a06-7c1b-4d9e-b1f3-2a5c9d4e6f70'' \<and>
      onecmd env_b ''show BaseModel 0e8f1a06-7c1b-4d9e-b1f3-2a5c9d4e6f70'' s1 = (Continue, s2) \<and>
      stdout s2 = [Text ''0e8f1a06-7c1b-4d9e-b1f3-2a5c9d4e6f70'', Str obj])"
proof -
  have c: "''BaseModel'' \<in> set (dict_keys current_classes)"
    by (simp add: dict_keys_def current_classes_def)
  have t: "is_token (uuid4 env_a)"
    by (simp add: env_a_def is_token_def isspace_def)
  have o: "stdout console_ab = []"
    by (simp add: console_ab_def)
  have u: "uuid4 env_a = ''0e8f1a06-7c1b-4d9e-b1f3-2a5c9d4e6f70''"
    by (simp add: env_a_def)
  from create_then_show [OF c t, of console_ab env_b]
  have "(\<exists>s1 obj.
      do_create ''BaseModel'' env_a console_ab = (Continue, s1) \<and>
      stdout s1 = [Text ''0e8f1a06-7c1b-4d9e-b1f3-2a5c9d4e6f70''] \<and>
      obj_id obj = ''0e8f1a06-7c1b-4d9e-b1f3-2a5c9d4e6f70'' \<and>
      do_show ''BaseModel 0e8f1a06-7c1b-4d9e-b1f3-2a5c9d4e6f70'' s1
        = (Continue, print (Str obj) s1)) \<and>
   (\<exists>s1 obj s2.
      onecmd env_a ''create BaseModel'' console_ab = (Continue, s1) \<and>
      obj_id obj = ''0e8f1a06-7c1b-4d9e-b1f3-2a5c9d4e6f70'' \<and>
      onecmd env_b ''show BaseModel 0e8f1a06-7c1b-4d9e-b1f3-2a5c9d4e6f70'' s1 = (Continue, s2) \<and>
      stdout s2 = [Text ''0e8f1a06-7c1b-4d9e-b1f3-2a5c9d4e6f70'', Str obj])"
    unfolding u o by (simp, metis append_Cons append_Nil)
  with c t show ?thesis by simp
qed

text \<open>
  C2. For a stored instance with the key \<^verbatim>\<open><class>.<id>\<close>, \<^verbatim>\<open>destroy <class> <id>\<close>
  removes that key from the storage map and leaves every other key as it was, and the
  \<^verbatim>\<open>show <class> <id>\<close> that follows prints \<^verbatim>\<open>** no instance found **\<close>. This holds for
  the handlers called with these arguments and for the two lines given to the command
  loop. The class is a known class and the identifier is one token, as the command line
  requires.
\<close>

theorem destroy_then_show:
  assumes "c \<in> set (dict_keys current_classes)" and "is_token i"
    and "dict_get (objects s) (format_key c i) = Some v"
  shows "(\<exists>s1.
            do_destroy (c @ '' '' @ i) s = (Continue, s1) \<and>
            format_key c i \<notin> set (dict_keys (objects s1)) \<and>
            dict_get (objects s1) (format_key c i) = None \<and>
            (\<forall>k. k \<noteq> format_key c i \<longrightarrow> dict_get (objects s1) k = dict_get (objects s) k) \<and>
            stdout s1 = stdout s \<and>
            do_show (c @ '' '' @ i) s1 = (Continue, print (Text ''** no instance found **'') s1)) \<and>
         (\<exists>s1 s2.
            onecmd e (''destroy '' @ c @ '' '' @ i) s = (Continue, s1) \<and>
            format_key c i \<notin> set (dict_keys (objects s1)) \<and>
            dict_get (objects s1) (format_key c i) = None \<and>
            (\<forall>k. k \<noteq> format_key c i \<longrightarrow> dict_get (objects s1) k = dict_get (objects s) k) \<and>
            stdout s1 = stdout s \<and>
            onecmd e' (''show '' @ c @ '' '' @ i) s1 = (Continue, s2) \<and>
            stdout s2 = stdout s1 @ [Text ''** no instance found **''] \<and> objects s2 = objects s1)"
proof
  have args: "str_split (c @ '' '' @ i) = [c, i]"
    using known_class_token [OF assms(1)] assms(2) by (rule split_class_id)
  obtain s1 where destroy: "do_destroy (c @ '' '' @ i) s = (Continue, s1)"
    and nokey: "format_key c i \<notin> set (dict_keys (objects s1))"
    and gone: "dict_get (objects s1) (format_key c i) = None"
    and others: "\<forall>k. k \<noteq> format_key c i \<longrightarrow> dict_get (objects s1) k = dict_get (objects s) k"
    and out: "stdout s1 = stdout s"
    using destroy_args_result [OF args assms(1,3)] by blast
  have "do_show (c @ '' '' @ i) s1 = (Continue, print (Text ''** no instance found **'') s1)"
    using args assms(1) gone by (rule show_args_missing)
  with destroy nokey gone others out
  show "\<exists>s1.
            do_destroy (c @ '' '' @ i) s = (Continue, s1) \<and>
            format_key c i \<notin> set (dict_keys (objects s1)) \<and>
            dict_get (objects s1) (format_key c i) = None \<and>
            (\<forall>k. k \<noteq> format_key c i \<longrightarrow> dict_get (objects s1) k = dict_get (objects s) k) \<and>
            stdout s1 = stdout s \<and>
            do_show (c @ '' '' @ i) s1 = (Continue, print (Text ''** no instance found **'') s1)"
    by blast
next
  let ?s0 = "s\<lparr>lastcmd := str_strip (''destroy'' @ '' '' @ c @ '' '' @ i)\<rparr>"
  have args: "str_split ('' '' @ c @ '' '' @ i) = [c, i]"
    using known_class_token [OF assms(1)] assms(2) by (simp only: str_split_blank split_class_id)
  have line1: "onecmd e (''destroy'' @ '' '' @ c @ '' '' @ i) s = do_destroy ('' '' @ c @ '' '' @ i) ?s0"
    using blank_then by (rule onecmd_destroy)
  have stored: "dict_get (objects ?s0) (format_key c i) = Some v"
    using assms(3) by simp
  obtain s1 where destroy: "do_destroy ('' '' @ c @ '' '' @ i) ?s0 = (Continue, s1)"
    and nokey: "format_key c i \<notin> set (dict_keys (objects s1))"
    and gone: "dict_get (objects s1) (format_key c i) = None"
    and others: "\<forall>k. k \<noteq> format_key c i \<longrightarrow> dict_get (objects s1) k = dict_get (objects ?s0) k"
    and out: "stdout s1 = stdout ?s0"
    using destroy_args_result [OF args assms(1) stored] by blast
  let ?s1' = "s1\<lparr>lastcmd := str_strip (''show'' @ '' '' @ c @ '' '' @ i)\<rparr>"
  have line2: "onecmd e' (''show'' @ '' '' @ c @ '' '' @ i) s1 = do_show ('' '' @ c @ '' '' @ i) ?s1'"
    using blank_then by (rule onecmd_show)
  have gone': "dict_get (objects ?s1') (format_key c i) = None"
    using gone by simp
  have shown: "do_show ('' '' @ c @ '' '' @ i) ?s1'
                 = (Continue, print (Text ''** no instance found **'') ?s1')"
    using args assms(1) gone' by (rule show_args_missing)
  have "onecmd e (''destroy '' @ c @ '' '' @ i) s = (Continue, s1)"
    using line1 destroy by simp
  moreover have "\<forall>k. k \<noteq> format_key c i \<longrightarrow> dict_get (objects s1) k = dict_get (objects s) k"
    using others by simp
  moreover have "stdout s1 = stdout s"
    using out by simp
  moreover have "onecmd e' (''show '' @ c @ '' '' @ i) s1
                   = (Continue, print (Text ''** no instance found **'') ?s1')"
    using line2 shown by simp
  moreover have "stdout (print (Text ''** no instance found **'') ?s1')
                   = stdout s1 @ [Text ''** no instance found **'']"
    "objects (print (Text ''** no instance found **'') ?s1') = objects s1"
    by (simp_all add: print_fields)
  ultimately show "\<exists>s1 s2.
            onecmd e (''destroy '' @ c @ '' '' @ i) s = (Continue, s1) \<and>
            format_key c i \<notin> set (dict_keys (objects s1)) \<and>
            dict_get (objects s1) (format_key c i) = None \<and>
            (\<forall>k. k \<noteq> format_key c i \<longrightarrow> dict_get (objects s1) k = dict_get (objects s) k) \<and>
            stdout s1 = stdout s \<and>
            onecmd e' (''show '' @ c @ '' '' @ i) s1 = (Continue, s2) \<and>
            stdout s2 = stdout s1 @ [Text ''** no instance found **''] \<and> objects s2 = objects s1"
    using nokey gone by blast
qed

theorem destroy_then_show_witness:
  "''BaseModel'' \<in> set (dict_keys current_classes) \<and>
   is_token ''9b71c2d4-55aa-4e0f-8c36-17d2f0a4b3e9'' \<and>
   dict_get (objects console_ab) (format_key ''BaseModel'' ''9b71c2d4-55aa-4e0f-8c36-17d2f0a4b3e9'')
     = Some obj_b \<and>
   (\<exists>s1.
      do_destroy (''BaseModel'' @ '' '' @ ''9b71c2d4-55aa-4e0f-8c36-17d2f0a4b3e9'') console_ab
        = (Continue, s1) \<and>
      dict_get (objects s1) (format_key ''BaseModel'' ''9b71c2d4-55aa-4e0f-8c36-17d2f0a4b3e9'')
        = None \<and>
      do_show (''BaseModel'' @ '' '' @ ''9b71c2d4-55aa-4e0f-8c36-17d2f0a4b3e9'') s1
        = (Continue, print (Text ''** no instance found **'') s1)) \<and>
   (\<exists>s1 s2.
      onecmd env_a (''destroy '' @ ''BaseModel'' @ '' '' @ ''9b71c2d4-55aa-4e0f-8c36-17d2f0a4b3e9'')
        console_ab = (Continue, s1) \<and>
      dict_get (objects s1) (format_key ''BaseModel'' ''9b71c2d4-55aa-4e0f-8c36-17d2f0a4b3e9'')
        = None \<and>
      onecmd env_b (''show '' @ ''BaseModel'' @ '' '' @ ''9b71c2d4-55aa-4e0f-8c36-17d2f0a4b3e9'') s1
        = (Continue, s2) \<and>
      stdout s2 = stdout s1 @ [Text ''** no instance found **''] \<and>
      stdout s1 = stdout console_ab)"
proof -
  have c: "''BaseModel'' \<in> set (dict_keys current_classes)"
    by (simp add: dict_keys_def current_classes_def)
  have t: "is_token ''9b71c2d4-55aa-4e0f-8c36-17d2f0a4b3e9''"
    by (simp add: is_token_def isspace_def)
  have g: "dict_get (objects console_ab)
             (format_key ''BaseModel'' ''9b71c2d4-55aa-4e0f-8c36-17d2f0a4b3e9'') = Some obj_b"
    by (simp add: console_ab_def dict_get_def format_key_def)
  note both = destroy_then_show [OF c t g, of env_a env_b]
  from both [THEN conjunct1] obtain s1
    where a1: "do_destroy (''BaseModel'' @ '' '' @ ''9b71c2d4-55aa-4e0f-8c36-17d2f0a4b3e9'')
                 console_ab = (Continue, s1)"
      and a2: "dict_get (objects s1)
                 (format_key ''BaseModel'' ''9b71c2d4-55aa-4e0f-8c36-17d2f0a4b3e9'') = None"
      and a3: "do_show (''BaseModel'' @ '' '' @ ''9b71c2d4-55aa-4e0f-8c36-17d2f0a4b3e9'') s1
                 = (Continue, print (Text ''** no instance found **'') s1)"
    by (elim exE conjE) (rule that)
  from both [THEN conjunct2] obtain t1 t2
    where b1: "onecmd env_a
                 (''destroy '' @ ''BaseModel'' @ '' '' @ ''9b71c2d4-55aa-4e0f-8c36-17d2f0a4b3e9'')
                 console_ab = (Continue, t1)"
      and b2: "dict_get (objects t1)
                 (format_key ''BaseModel'' ''9b71c2d4-55aa-4e0f-8c36-17d2f0a4b3e9'') = None"
      and b3: "onecmd env_b
                 (''show '' @ ''BaseModel'' @ '' '' @ ''9b71c2d4-55aa-4e0f-8c36-17d2f0a4b3e9'') t1
                 = (Continue, t2)"
      and b4: "stdout t2 = stdout t1 @ [Text ''** no instance found **'']"
      and b5: "stdout t1 = stdout console_ab"
    by (elim exE conjE) (rule that)
  have p1: "\<exists>s1.
      do_destroy (''BaseModel'' @ '' '' @ ''9b71c2d4-55aa-4e0f-8c36-17d2f0a4b3e9'') console_ab
        = (Continue, s1) \<and>
      dict_get (objects s1) (format_key ''BaseModel'' ''9b71c2d4-55aa-4e0f-8c36-17d2f0a4b3e9'')
        = None \<and>
      do_show (''BaseModel'' @ '' '' @ ''9b71c2d4-55aa-4e0f-8c36-17d2f0a4b3e9'') s1
        = (Continue, print (Text ''** no instance found **'') s1)"
    by (intro exI conjI) (rule a1, rule a2, rule a3)
  have p2: "\<exists>s1 s2.
      onecmd env_a (''destroy '' @ ''BaseModel'' @ '' '' @ ''9b71c2d4-55aa-4e0f-8c36-17d2f0a4b3e9'')
        console_ab = (Continue, s1) \<and>
      dict_get (objects s1) (format_key ''BaseModel'' ''9b71c2d4-55aa-4e0f-8c36-17d2f0a4b3e9'')
        = None \<and>
      onecmd env_b (''show '' @ ''BaseModel'' @ '' '' @ ''9b71c2d4-55aa-4e0f-8c36-17d2f0a4b3e9'') s1
        = (Continue, s2) \<and>
      stdout s2 = stdout s1 @ [Text ''** no instance found **''] \<and>
      stdout s1 = stdout console_ab"
    by (intro exI conjI) (rule b1, rule b2, rule b3, rule b4, rule b5)
  from c t g p1 p2 show ?thesis by (intro conjI)
qed

text \<open>
  C3. In every state of the storage, \<^verbatim>\<open>all\<close> with no argument prints the list of the
  string representations of all stored objects, in the order of the map, and
  \<^verbatim>\<open>all <class>\<close> with a known class name prints the list of exactly those stored
  objects whose class is that class.
\<close>

theorem all_lists_objects:
  "(str_split arg = [] \<longrightarrow>
      do_all arg s = (Continue, print (StrList (dict_values (objects s))) s)) \<and>
   (\<forall>c rest. str_split arg = c # rest \<and> c \<in> set (dict_keys current_classes) \<longrightarrow>
      (\<exists>vs. do_all arg s = (Continue, print (StrList vs) s) \<and>
            vs = filter (\<lambda>v. type_name v = c) (dict_values (objects s)) \<and>
            set vs = {v \<in> set (dict_values (objects s)). type_name v = c}))"
  by (auto simp: do_all_noargs do_all_class)

theorem all_lists_objects_witness:
  "str_split '''' = [] \<and>
   do_all '''' console_ab = (Continue, print (StrList [obj_a, obj_u, obj_b]) console_ab) \<and>
   str_split ''BaseModel'' = [''BaseModel''] \<and>
   ''BaseModel'' \<in> set (dict_keys current_classes) \<and>
   do_all ''BaseModel'' console_ab = (Continue, print (StrList [obj_a, obj_b]) console_ab)"
proof -
  have e: "str_split '''' = []" by (simp add: str_split_def)
  have b: "str_split ''BaseModel'' = [''BaseModel'']"
    using is_token_BaseModel by (rule str_split_token)
  have c: "''BaseModel'' \<in> set (dict_keys current_classes)"
    by (simp add: dict_keys_def current_classes_def)
  have v: "dict_values (objects console_ab) = [obj_a, obj_u, obj_b]"
    by (simp add: console_ab_def dict_values_def)
  have f: "filter (\<lambda>v. type_name v = ''BaseModel'') [obj_a, obj_u, obj_b] = [obj_a, obj_b]"
    by (simp add: obj_a_def obj_b_def obj_u_def)
  from all_lists_objects [of "''''" console_ab] e v
  have 1: "do_all '''' console_ab = (Continue, print (StrList [obj_a, obj_u, obj_b]) console_ab)"
    by simp
  from all_lists_objects [of "''BaseModel''" console_ab] b c v f
  have 2: "do_all ''BaseModel'' console_ab = (Continue, print (StrList [obj_a, obj_b]) console_ab)"
    by auto
  from e b c 1 2 show ?thesis by simp
qed

text \<open>
  C4. A command whose first argument is not a known class name is to print exactly
  \<^verbatim>\<open>** class doesn't exist **\<close> and to leave the storage map unchanged. The code
  does the second and misses the first by one character: the literal of
  \<^verbatim>\<open>validate_classname\<close> and of \<^verbatim>\<open>do_all\<close> has a blank after the closing
  asterisks, where the messages for a missing identifier and for a missing instance end at
  the asterisks. At \<^verbatim>\<open>create MyModel\<close> on an empty storage the handler goes on, leaves
  the map empty and prints the message with the blank, which is not the string of the
  claim; \<^verbatim>\<open>show BaseModel\<close> prints its message with no blank.
\<close>

theorem unknown_class_message_create_MyModel:
  "do_create ''MyModel'' env_a empty_console
     = (Continue, print (Text ''** class doesn't exist ** '') empty_console) \<and>
   stdout (snd (do_create ''MyModel'' env_a empty_console)) = [Text ''** class doesn't exist ** ''] \<and>
   stdout (snd (do_create ''MyModel'' env_a empty_console)) \<noteq> [Text ''** class doesn't exist **''] \<and>
   objects (snd (do_create ''MyModel'' env_a empty_console)) = objects empty_console \<and>
   stdout (snd (onecmd env_a ''create MyModel'' empty_console)) = [Text ''** class doesn't exist ** ''] \<and>
   stdout (snd (do_show ''BaseModel'' empty_console)) = [Text ''** instance id missing **'']"
proof -
  have t: "str_split ''MyModel'' = [''MyModel'']"
    by (rule str_split_token) (simp add: is_token_def isspace_def)
  have u: "''MyModel'' \<notin> set (dict_keys current_classes)"
    by (simp add: known_class)
  have o: "stdout empty_console = []"
    by (simp add: empty_console_def)
  have run: "do_create ''MyModel'' env_a empty_console
               = (Continue, print (Text ''** class doesn't exist ** '') empty_console)"
    using t u by (rule do_rejects_unknown(1))
  have out: "stdout (snd (do_create ''MyModel'' env_a empty_console))
               = [Text ''** class doesn't exist ** '']"
    unfolding run by (simp add: print_fields o)
  have differs: "stdout (snd (do_create ''MyModel'' env_a empty_console))
               \<noteq> [Text ''** class doesn't exist **'']"
    unfolding out by simp
  have same: "objects (snd (do_create ''MyModel'' env_a empty_console)) = objects empty_console"
    unfolding run by (simp add: print_fields)
  have v: "''create'' \<in> {''create'', ''show'', ''destroy'', ''all''}"
    by (rule insertI1)
  have eq: "''create'' @ '' '' @ ''MyModel'' = ''create MyModel''"
    by simp
  have line: "onecmd env_a ''create MyModel'' empty_console =
                (Continue, print (Text ''** class doesn't exist ** '')
                             (empty_console\<lparr>lastcmd := str_strip ''create MyModel''\<rparr>))"
    using unknown_class_prints [OF t u, of env_a empty_console, THEN conjunct2, THEN bspec, OF v]
    unfolding eq .
  have out2: "stdout (snd (onecmd env_a ''create MyModel'' empty_console))
                = [Text ''** class doesn't exist ** '']"
    unfolding line by (simp add: print_fields o)
  have b: "str_split ''BaseModel'' = [''BaseModel'']"
    using is_token_BaseModel by (rule str_split_token)
  have c: "''BaseModel'' \<in> set (dict_keys current_classes)"
    by (simp add: known_class)
  have noid: "do_show ''BaseModel'' empty_console
                = (Continue, print (Text ''** instance id missing **'') empty_console)"
    using b c by (rule do_rejects_noid(1))
  have out3: "stdout (snd (do_show ''BaseModel'' empty_console))
                = [Text ''** instance id missing **'']"
    unfolding noid by (simp add: print_fields o)
  from run out differs same out2 out3 show ?thesis by (intro conjI)
qed

text \<open>
  C5. \<^verbatim>\<open>create\<close>, \<^verbatim>\<open>show\<close> and \<^verbatim>\<open>destroy\<close> check their arguments before they act.
  With no class name, with an unknown class name, and for \<^verbatim>\<open>show\<close> and \<^verbatim>\<open>destroy\<close>
  with a class name and no identifier, the handler prints one fixed string and returns:
  the storage map, the file and the count of writes are unchanged, and the command loop
  goes on with the next line.
\<close>

theorem validation_failure_no_action:
  "(str_split arg = [] \<longrightarrow>
      (\<forall>r \<in> {do_create arg e s, do_show arg s, do_destroy arg s}.
         r = (Continue, print (Text ''** class name missing ** '') s))) \<and>
   (\<forall>a0 rest. str_split arg = a0 # rest \<and> a0 \<notin> set (dict_keys current_classes) \<longrightarrow>
      (\<forall>r \<in> {do_create arg e s, do_show arg s, do_destroy arg s}.
         r = (Continue, print (Text ''** class doesn't exist ** '') s))) \<and>
   (\<forall>a0. str_split arg = [a0] \<and> a0 \<in> set (dict_keys current_classes) \<longrightarrow>
      (\<forall>r \<in> {do_show arg s, do_destroy arg s}.
         r = (Continue, print (Text ''** instance id missing **'') s))) \<and>
   (\<forall>m. objects (print m s) = objects s \<and> json_file (print m s) = json_file s \<and>
        saves (print m s) = saves s) \<and>
   (\<forall>verb \<in> {''create'', ''show'', ''destroy''}.
      str_split arg = [] \<or>
      (\<exists>a0 rest. str_split arg = a0 # rest \<and> a0 \<notin> set (dict_keys current_classes)) \<or>
      (verb \<noteq> ''create'' \<and> length (str_split arg) = 1) \<longrightarrow>
      (\<exists>m \<in> {''** class name missing ** '', ''** class doesn't exist ** '',
               ''** instance id missing **''}.
         cmdloop ((e, verb @ '' '' @ arg) # later) s =
           cmdloop later (print (Text m) (s\<lparr>lastcmd := str_strip (verb @ '' '' @ arg)\<rparr>))))"
proof -
  define M where "M = {''** class name missing ** '', ''** class doesn't exist ** '',
                       ''** instance id missing **''}"
  have sp: "str_split ('' '' @ arg) = str_split arg" by (rule str_split_blank)
  have create: "\<exists>m \<in> M. cmdloop ((e, ''create'' @ '' '' @ arg) # later) s =
           cmdloop later (print (Text m) (s\<lparr>lastcmd := str_strip (''create'' @ '' '' @ arg)\<rparr>))"
    if fail: "str_split arg = [] \<or>
      (\<exists>a0 rest. str_split arg = a0 # rest \<and> a0 \<notin> set (dict_keys current_classes)) \<or>
      (False \<and> length (str_split arg) = 1)"
  proof -
    let ?s0 = "s\<lparr>lastcmd := str_strip (''create'' @ '' '' @ arg)\<rparr>"
    have "\<exists>m \<in> M. validate_classname (str_split arg) False ?s0 = (False, print (Text m) ?s0)"
      unfolding M_def using fail by (rule validate_fails)
    then obtain m where m: "m \<in> M"
      and v: "validate_classname (str_split arg) False ?s0 = (False, print (Text m) ?s0)"
      by (elim bexE) (rule that)
    have "onecmd e (''create'' @ '' '' @ arg) s = do_create ('' '' @ arg) e ?s0"
      using blank_then by (rule onecmd_create)
    also have "\<dots> = do_create arg e ?s0"
      using sp by (rule handlers_split_only(1))
    also have "\<dots> = (Continue, print (Text m) ?s0)"
      using v by (rule invalid_stops(1))
    finally have "cmdloop ((e, ''create'' @ '' '' @ arg) # later) s
                    = cmdloop later (print (Text m) ?s0)"
      by (rule cmdloop_continue)
    then show ?thesis using m by (rule bexI)
  qed
  have "show": "\<exists>m \<in> M. cmdloop ((e, ''show'' @ '' '' @ arg) # later) s =
           cmdloop later (print (Text m) (s\<lparr>lastcmd := str_strip (''show'' @ '' '' @ arg)\<rparr>))"
    if fail: "str_split arg = [] \<or>
      (\<exists>a0 rest. str_split arg = a0 # rest \<and> a0 \<notin> set (dict_keys current_classes)) \<or>
      (True \<and> length (str_split arg) = 1)"
  proof -
    let ?s0 = "s\<lparr>lastcmd := str_strip (''show'' @ '' '' @ arg)\<rparr>"
    have "\<exists>m \<in> M. validate_classname (str_split arg) True ?s0 = (False, print (Text m) ?s0)"
      unfolding M_def using fail by (rule validate_fails)
    then obtain m where m: "m \<in> M"
      and v: "validate_classname (str_split arg) True ?s0 = (False, print (Text m) ?s0)"
      by (elim bexE) (rule that)
    have "onecmd e (''show'' @ '' '' @ arg) s = do_show ('' '' @ arg) ?s0"
      using blank_then by (rule onecmd_show)
    also have "\<dots> = do_show arg ?s0"
      using sp by (rule handlers_split_only(2))
    also have "\<dots> = (Continue, print (Text m) ?s0)"
      using v by (rule invalid_stops(2))
    finally have "cmdloop ((e, ''show'' @ '' '' @ arg) # later) s
                    = cmdloop later (print (Text m) ?s0)"
      by (rule cmdloop_continue)
    then show ?thesis using m by (rule bexI)
  qed
  have destroy: "\<exists>m \<in> M. cmdloop ((e, ''destroy'' @ '' '' @ arg) # later) s =
           cmdloop later (print (Text m) (s\<lparr>lastcmd := str_strip (''destroy'' @ '' '' @ arg)\<rparr>))"
    if fail: "str_split arg = [] \<or>
      (\<exists>a0 rest. str_split arg = a0 # rest \<and> a0 \<notin> set (dict_keys current_classes)) \<or>
      (True \<and> length (str_split arg) = 1)"
  proof -
    let ?s0 = "s\<lparr>lastcmd := str_strip (''destroy'' @ '' '' @ arg)\<rparr>"
    have "\<exists>m \<in> M. validate_classname (str_split arg) True ?s0 = (False, print (Text m) ?s0)"
      unfolding M_def using fail by (rule validate_fails)
    then obtain m where m: "m \<in> M"
      and v: "validate_classname (str_split arg) True ?s0 = (False, print (Text m) ?s0)"
      by (elim bexE) (rule that)
    have "onecmd e (''destroy'' @ '' '' @ arg) s = do_destroy ('' '' @ arg) ?s0"
      using blank_then by (rule onecmd_destroy)
    also have "\<dots> = do_destroy arg ?s0"
      using sp by (rule handlers_split_only(3))
    also have "\<dots> = (Continue, print (Text m) ?s0)"
      using v by (rule invalid_stops(3))
    finally have "cmdloop ((e, ''destroy'' @ '' '' @ arg) # later) s
                    = cmdloop later (print (Text m) ?s0)"
      by (rule cmdloop_continue)
    then show ?thesis using m by (rule bexI)
  qed
  have loop: "\<forall>verb \<in> {''create'', ''show'', ''destroy''}.
      str_split arg = [] \<or>
      (\<exists>a0 rest. str_split arg = a0 # rest \<and> a0 \<notin> set (dict_keys current_classes)) \<or>
      (verb \<noteq> ''create'' \<and> length (str_split arg) = 1) \<longrightarrow>
      (\<exists>m \<in> M.
         cmdloop ((e, verb @ '' '' @ arg) # later) s =
           cmdloop later (print (Text m) (s\<lparr>lastcmd := str_strip (verb @ '' '' @ arg)\<rparr>)))"
  proof (intro ballI impI)
    fix verb :: string
    assume verb: "verb \<in> {''create'', ''show'', ''destroy''}"
      and f: "str_split arg = [] \<or>
        (\<exists>a0 rest. str_split arg = a0 # rest \<and> a0 \<notin> set (dict_keys current_classes)) \<or>
        (verb \<noteq> ''create'' \<and> length (str_split arg) = 1)"
    from verb have "verb = ''create'' \<or> verb = ''show'' \<or> verb = ''destroy''"
      by (simp only: insert_iff empty_iff simp_thms)
    then consider "verb = ''create''" | "verb = ''show''" | "verb = ''destroy''" by (elim disjE)
    then show "\<exists>m \<in> M.
         cmdloop ((e, verb @ '' '' @ arg) # later) s =
           cmdloop later (print (Text m) (s\<lparr>lastcmd := str_strip (verb @ '' '' @ arg)\<rparr>))"
    proof cases
      case 1
      from f have "str_split arg = [] \<or>
        (\<exists>a0 rest. str_split arg = a0 # rest \<and> a0 \<notin> set (dict_keys current_classes)) \<or>
        (False \<and> length (str_split arg) = 1)"
        unfolding 1 by (simp only: simp_thms not_True_eq_False)
      then show ?thesis unfolding 1 by (rule create)
    next
      case 2
      from f have "str_split arg = [] \<or>
        (\<exists>a0 rest. str_split arg = a0 # rest \<and> a0 \<notin> set (dict_keys current_classes)) \<or>
        (True \<and> length (str_split arg) = 1)"
        by (elim disjE conjE) (simp_all only: simp_thms)
      then show ?thesis unfolding 2 by (rule "show")
    next
      case 3
      from f have "str_split arg = [] \<or>
        (\<exists>a0 rest. str_split arg = a0 # rest \<and> a0 \<notin> set (dict_keys current_classes)) \<or>
        (True \<and> length (str_split arg) = 1)"
        by (elim disjE conjE) (simp_all only: simp_thms)
      then show ?thesis unfolding 3 by (rule destroy)
    qed
  qed
  have h1: "str_split arg = [] \<longrightarrow>
      (\<forall>r \<in> {do_create arg e s, do_show arg s, do_destroy arg s}.
         r = (Continue, print (Text ''** class name missing ** '') s))"
    by (intro impI ballI) (auto simp only: insert_iff empty_iff do_rejects)
  have h2: "\<forall>a0 rest. str_split arg = a0 # rest \<and> a0 \<notin> set (dict_keys current_classes) \<longrightarrow>
      (\<forall>r \<in> {do_create arg e s, do_show arg s, do_destroy arg s}.
         r = (Continue, print (Text ''** class doesn't exist ** '') s))"
  proof (intro allI impI ballI)
    fix a0 rest r
    assume a: "str_split arg = a0 # rest \<and> a0 \<notin> set (dict_keys current_classes)"
      and r: "r \<in> {do_create arg e s, do_show arg s, do_destroy arg s}"
    note rej = do_rejects_unknown [OF a [THEN conjunct1] a [THEN conjunct2]]
    from r have "r = do_create arg e s \<or> r = do_show arg s \<or> r = do_destroy arg s"
      by (simp only: insert_iff empty_iff simp_thms)
    then show "r = (Continue, print (Text ''** class doesn't exist ** '') s)"
      by (elim disjE) (simp_all only: rej)
  qed
  have h3: "\<forall>a0. str_split arg = [a0] \<and> a0 \<in> set (dict_keys current_classes) \<longrightarrow>
      (\<forall>r \<in> {do_show arg s, do_destroy arg s}.
         r = (Continue, print (Text ''** instance id missing **'') s))"
  proof (intro allI impI ballI)
    fix a0 r
    assume a: "str_split arg = [a0] \<and> a0 \<in> set (dict_keys current_classes)"
      and r: "r \<in> {do_show arg s, do_destroy arg s}"
    note rej = do_rejects_noid [OF a [THEN conjunct1] a [THEN conjunct2]]
    from r have "r = do_show arg s \<or> r = do_destroy arg s"
      by (simp only: insert_iff empty_iff simp_thms)
    then show "r = (Continue, print (Text ''** instance id missing **'') s)"
      by (elim disjE) (simp_all only: rej)
  qed
  have h4: "\<forall>m. objects (print m s) = objects s \<and> json_file (print m s) = json_file s \<and>
        saves (print m s) = saves s"
    by (simp add: print_fields)
  from h1 h2 h3 h4 loop show ?thesis unfolding M_def by (intro conjI)
qed

theorem validation_failure_no_action_witness:
  "str_split ''BaseModel'' = [''BaseModel''] \<and>
   ''BaseModel'' \<in> set (dict_keys current_classes) \<and>
   do_show ''BaseModel'' console_ab
     = (Continue, print (Text ''** instance id missing **'') console_ab) \<and>
   do_destroy ''BaseModel'' console_ab
     = (Continue, print (Text ''** instance id missing **'') console_ab) \<and>
   objects (print (Text ''** instance id missing **'') console_ab) = objects console_ab \<and>
   saves (print (Text ''** instance id missing **'') console_ab) = saves console_ab \<and>
   (\<exists>m \<in> {''** class name missing ** '', ''** class doesn't exist ** '',
            ''** instance id missing **''}.
      cmdloop [(env_a, ''destroy'' @ '' '' @ ''BaseModel''), (env_b, ''all'')] console_ab =
        cmdloop [(env_b, ''all'')]
          (print (Text m)
             (console_ab\<lparr>lastcmd := str_strip (''destroy'' @ '' '' @ ''BaseModel'')\<rparr>)))"
proof -
  have b: "str_split ''BaseModel'' = [''BaseModel'']"
    using is_token_BaseModel by (rule str_split_token)
  have c: "''BaseModel'' \<in> set (dict_keys current_classes)"
    by (simp add: dict_keys_def current_classes_def)
  note all5 = validation_failure_no_action
                [of "''BaseModel''" env_a console_ab "[(env_b, ''all'')]"]
  note noid = all5 [THEN conjunct2, THEN conjunct2, THEN conjunct1, rule_format,
                    of "''BaseModel''", OF conjI [OF b c]]
  note frame = all5 [THEN conjunct2, THEN conjunct2, THEN conjunct2, THEN conjunct1, rule_format,
                     of "Text ''** instance id missing **''"]
  note loop = all5 [THEN conjunct2, THEN conjunct2, THEN conjunct2, THEN conjunct2,
                    THEN bspec, of "''destroy''", THEN mp]
  have s: "do_show ''BaseModel'' console_ab
             = (Continue, print (Text ''** instance id missing **'') console_ab)"
    by (rule noid) (rule insertI1)
  have d: "do_destroy ''BaseModel'' console_ab
             = (Continue, print (Text ''** instance id missing **'') console_ab)"
    by (rule noid) (rule insertI2, rule insertI1)
  have v: "''destroy'' \<in> {''create'', ''show'', ''destroy''}" by simp
  have f: "str_split ''BaseModel'' = [] \<or>
           (\<exists>a0 rest. str_split ''BaseModel'' = a0 # rest \<and> a0 \<notin> set (dict_keys current_classes)) \<or>
           (''destroy'' \<noteq> ''create'' \<and> length (str_split ''BaseModel'') = 1)"
    by (intro disjI2 conjI) (simp, simp add: b)
  note l = loop [OF v f]
  show ?thesis
    by (intro conjI) (rule b, rule c, rule s, rule d, rule frame [THEN conjunct1],
      rule frame [THEN conjunct2, THEN conjunct2], rule l)
qed

text \<open>
  C6. A command that changes the storage map writes the map to the file: after a
  \<^verbatim>\<open>create\<close> with a known class name, and after a \<^verbatim>\<open>destroy\<close> of a stored instance,
  the file holds the new map and has been written once more; and whatever the line, a
  command that leaves the map different from what it was has written the new map to the
  file.
\<close>

theorem mutations_are_persisted:
  "(\<forall>c rest. str_split arg = c # rest \<and> c \<in> set (dict_keys current_classes) \<longrightarrow>
      (\<exists>s1. do_create arg e s = (Continue, s1) \<and>
            json_file s1 = Some (objects s1) \<and> saves s1 = Suc (saves s))) \<and>
   (\<forall>c i rest v. str_split arg = c # i # rest \<and> c \<in> set (dict_keys current_classes) \<and>
        dict_get (objects s) (format_key c i) = Some v \<longrightarrow>
      (\<exists>s1. do_destroy arg s = (Continue, s1) \<and>
            json_file s1 = Some (objects s1) \<and> saves s1 = Suc (saves s))) \<and>
   (\<forall>line r s1. onecmd e line s = (r, s1) \<and> objects s1 \<noteq> objects s \<longrightarrow>
      json_file s1 = Some (objects s1) \<and> saves s1 = Suc (saves s))"
proof (intro conjI allI impI)
  fix c rest
  assume "str_split arg = c # rest \<and> c \<in> set (dict_keys current_classes)"
  then show "\<exists>s1. do_create arg e s = (Continue, s1) \<and>
            json_file s1 = Some (objects s1) \<and> saves s1 = Suc (saves s)"
    using create_args_result [of arg c rest e s] by blast
next
  fix c i rest v
  assume "str_split arg = c # i # rest \<and> c \<in> set (dict_keys current_classes) \<and>
        dict_get (objects s) (format_key c i) = Some v"
  then show "\<exists>s1. do_destroy arg s = (Continue, s1) \<and>
            json_file s1 = Some (objects s1) \<and> saves s1 = Suc (saves s)"
    using destroy_args_result [of arg c i rest s v] by blast
next
  fix line r s1
  assume a: "onecmd e line s = (r, s1) \<and> objects s1 \<noteq> objects s"
  then have "persisted s s1"
    using onecmd_effect [of s e line] by (auto simp: untouched_def)
  then show "json_file s1 = Some (objects s1)" and "saves s1 = Suc (saves s)"
    by (simp_all add: persisted_def)
qed

theorem mutations_are_persisted_witness:
  "str_split ''BaseModel'' = [''BaseModel''] \<and>
   ''BaseModel'' \<in> set (dict_keys current_classes) \<and>
   (\<exists>s1. do_create ''BaseModel'' env_a empty_console = (Continue, s1) \<and>
         json_file s1 = Some (objects s1) \<and> saves s1 = Suc (saves empty_console))"
proof -
  have b: "str_split ''BaseModel'' = [''BaseModel'']"
    using is_token_BaseModel by (rule str_split_token)
  have c: "''BaseModel'' \<in> set (dict_keys current_classes)"
    by (simp add: dict_keys_def current_classes_def)
  show ?thesis
    using b c mutations_are_persisted [of "''BaseModel''" env_a empty_console] by simp
qed

text \<open>
  C7. The keys of the storage map are unique, and every command keeps them so: from a
  map with no key twice, after any sequence of lines given to the command loop, no key
  occurs twice in the map, so a key belongs to at most one object.
\<close>

theorem keys_stay_unique:
  assumes "distinct (dict_keys (objects s))"
  shows "distinct (dict_keys (objects (snd (cmdloop lines s)))) \<and>
         (\<forall>k v v'. (k, v) \<in> set (objects (snd (cmdloop lines s))) \<and>
                    (k, v') \<in> set (objects (snd (cmdloop lines s))) \<longrightarrow> v = v')"
proof -
  have d: "distinct (map fst (objects (snd (cmdloop lines s))))"
    using cmdloop_distinct [OF assms, of lines] by (simp add: dict_keys_def)
  then show ?thesis by (auto simp: dict_keys_def dest: eq_key_imp_eq_value)
qed

theorem keys_stay_unique_witness:
  "distinct (dict_keys (objects console_ab)) \<and>
   distinct (dict_keys (objects (snd (cmdloop
     [(env_a, ''create BaseModel''), (env_a, ''create BaseModel''),
      (env_b, ''destroy BaseModel 9b71c2d4-55aa-4e0f-8c36-17d2f0a4b3e9''),
      (env_b, ''show BaseModel 0e8f1a06-7c1b-4d9e-b1f3-2a5c9d4e6f70''), (env_b, ''all'')]
     console_ab))))"
proof -
  have d: "distinct (dict_keys (objects console_ab))"
    by (simp add: console_ab_def dict_keys_def)
  show ?thesis
    using d keys_stay_unique [OF d] by blast
qed

text \<open>
  C8. \<^verbatim>\<open>show\<close> and \<^verbatim>\<open>all\<close> only read: for every argument and every state, the
  branch that finds no instance included, the storage map, the file and the count of
  writes are after the command what they were before it.
\<close>

theorem show_all_read_only:
  "(\<forall>r \<in> {do_show arg s, do_all arg s}.
      objects (snd r) = objects s \<and> json_file (snd r) = json_file s \<and> saves (snd r) = saves s) \<and>
   (\<forall>r \<in> {onecmd e (''show'' @ '' '' @ arg) s, onecmd e (''all'' @ '' '' @ arg) s,
            onecmd e ''show'' s, onecmd e ''all'' s}.
      objects (snd r) = objects s \<and> json_file (snd r) = json_file s \<and> saves (snd r) = saves s)"
proof -
  have u: "untouched (s\<lparr>lastcmd := l\<rparr>) s' \<Longrightarrow> untouched s s'" for l s'
    by (simp add: untouched_def)
  have e: "[] = [] \<or> isspace (hd [])" by simp
  have "untouched s (snd (onecmd e (''show'' @ '' '' @ arg) s))"
    "untouched s (snd (onecmd e (''all'' @ '' '' @ arg) s))"
    by (simp_all only: onecmd_show [OF blank_then] onecmd_all [OF blank_then]
          u [OF do_show_untouched] u [OF do_all_untouched])
  moreover have "untouched s (snd (onecmd e (''show'' @ []) s))"
    "untouched s (snd (onecmd e (''all'' @ []) s))"
    by (simp_all only: onecmd_show [OF e] onecmd_all [OF e]
          u [OF do_show_untouched] u [OF do_all_untouched])
  ultimately show ?thesis
    using do_show_untouched [of s arg] do_all_untouched [of s arg]
    by (simp add: untouched_def)
qed

theorem show_all_read_only_witness:
  "objects (snd (do_show ''BaseModel none'' console_ab)) = objects console_ab \<and>
   json_file (snd (do_show ''BaseModel none'' console_ab)) = json_file console_ab \<and>
   saves (snd (do_show ''BaseModel none'' console_ab)) = saves console_ab \<and>
   objects (snd (onecmd env_a ''all'' console_ab)) = objects console_ab"
  using show_all_read_only [of "''BaseModel none''" console_ab env_a] by simp

text \<open>
  C9. An empty line, or a line of white space only, does nothing: the loop goes on and
  the state is the state before, with nothing printed and nothing stored; in particular
  the command of \<^verbatim>\<open>lastcmd\<close> is not run again.
\<close>

theorem empty_line_is_noop:
  assumes "list_all isspace line"
  shows "onecmd e line s = (Continue, s)"
proof -
  have "str_strip line = []" using assms by (simp add: str_strip_empty_iff)
  then show ?thesis by (simp add: onecmd_def parseline_def emptyline_def)
qed

theorem empty_line_is_noop_witness:
  "list_all isspace ''  '' \<and> onecmd env_b ''  '' console_ab = (Continue, console_ab) \<and>
   lastcmd console_ab = ''create BaseModel'' \<and>
   onecmd env_b (lastcmd console_ab) console_ab \<noteq> (Continue, console_ab)"
proof -
  have w: "list_all isspace ''  ''" by (simp add: isspace_def)
  have l: "lastcmd console_ab = ''create BaseModel''" by (simp add: console_ab_def)
  have c: "''BaseModel'' \<in> set (dict_keys current_classes)"
    by (simp add: known_class)
  have sp: "str_split ('' '' @ ''BaseModel'') = [''BaseModel'']"
    using is_token_BaseModel by (simp only: str_split_blank str_split_token)
  let ?s0 = "console_ab\<lparr>lastcmd := str_strip (''create'' @ '' '' @ ''BaseModel'')\<rparr>"
  from create_args_result [OF sp c, of env_b ?s0]
  obtain s1 obj where run: "do_create ('' '' @ ''BaseModel'') env_b ?s0 = (Continue, s1)"
    and out: "stdout s1 = stdout ?s0 @ [Text (uuid4 env_b)]"
    by (elim exE conjE) (rule that)
  have line: "onecmd env_b (''create'' @ '' '' @ ''BaseModel'') console_ab
          = do_create ('' '' @ ''BaseModel'') env_b ?s0"
    using blank_then by (rule onecmd_create)
  have eq: "''create'' @ '' '' @ ''BaseModel'' = ''create BaseModel''" by simp
  have step: "onecmd env_b ''create BaseModel'' console_ab = (Continue, s1)"
    using line run unfolding eq by (rule trans)
  have "stdout s1 = stdout console_ab @ [Text (uuid4 env_b)]"
    using out by (simp only: unchanged_fields)
  then have diff: "stdout s1 \<noteq> stdout console_ab"
    by simp
  have ne: "s1 \<noteq> console_ab"
  proof
    assume "s1 = console_ab"
    then have "stdout s1 = stdout console_ab" by (rule arg_cong)
    with diff show False by (rule notE)
  qed
  have last: "onecmd env_b (lastcmd console_ab) console_ab \<noteq> (Continue, console_ab)"
    unfolding l step using ne by (simp only: prod.inject simp_thms not_False_eq_True)
  have noop: "onecmd env_b ''  '' console_ab = (Continue, console_ab)"
    using w by (rule empty_line_is_noop)
  from w noop l last show ?thesis by (intro conjI)
qed

text \<open>
  C10. Arguments after those a command needs are ignored: with a class name and an
  identifier that are tokens, and white space between the arguments, \<^verbatim>\<open>show\<close> and
  \<^verbatim>\<open>destroy\<close> do with \<^verbatim>\<open><class> <id> <extra>\<close> what they do with \<^verbatim>\<open><class> <id>\<close>,
  and \<^verbatim>\<open>create\<close> does with \<^verbatim>\<open><class> <extra>\<close> what it does with \<^verbatim>\<open><class>\<close>,
  whatever the extra text is.
\<close>

theorem extra_arguments_ignored:
  assumes "is_token c" and "is_token i"
    and "w1 \<noteq> []" and "list_all isspace w1" and "w2 \<noteq> []" and "list_all isspace w2"
  shows "do_show (c @ w1 @ i @ w2 @ extra) s = do_show (c @ w1 @ i) s \<and>
         do_destroy (c @ w1 @ i @ w2 @ extra) s = do_destroy (c @ w1 @ i) s \<and>
         do_create (c @ w2 @ extra) e s = do_create c e s"
proof -
  have i: "str_split i = [i]" using assms(2) by (rule str_split_token)
  have ie: "str_split (i @ w2 @ extra) = i # str_split extra"
    using assms(2,5,6) by (rule str_split_token_sep)
  have long: "str_split (c @ w1 @ i @ w2 @ extra) = c # i # str_split extra"
    using str_split_token_sep [OF assms(1,3,4), of "i @ w2 @ extra"] ie by simp
  have short: "str_split (c @ w1 @ i) = c # i # []"
    using str_split_token_sep [OF assms(1,3,4), of i] i by simp
  have c1: "str_split c = c # []" using assms(1) by (rule str_split_token)
  have ce: "str_split (c @ w2 @ extra) = c # str_split extra"
    using assms(1,5,6) by (rule str_split_token_sep)
  show ?thesis
    using handlers_first_two [OF long short, of s] create_first_one [OF ce c1, of e s] by simp
qed

theorem extra_arguments_ignored_witness:
  "is_token ''BaseModel'' \<and> is_token ''77'' \<and> list_all isspace '' '' \<and>
   do_show ''BaseModel 77 and more'' console_ab = do_show ''BaseModel 77'' console_ab \<and>
   do_destroy ''BaseModel 77 and more'' console_ab = do_destroy ''BaseModel 77'' console_ab \<and>
   do_create ''BaseModel and more'' env_a console_ab = do_create ''BaseModel'' env_a console_ab"
proof -
  have i: "is_token ''77''" by (simp add: is_token_def isspace_def)
  have w: "'' '' \<noteq> []" "list_all isspace '' ''" by (simp_all add: isspace_def)
  show ?thesis
    using is_token_BaseModel i w
      extra_arguments_ignored [OF is_token_BaseModel i w w, of "''and more''" console_ab env_a]
    by simp
qed

end
